theory Spec2Isabelle
  imports Complex_Main "HOL-Library.Sublist"
begin

section \<open>Python values\<close>

text \<open>
  A Python \<open>str\<close> is a sequence of Unicode code points; it is modelled as the list of
  its code points, so that \<open>len\<close>, concatenation, \<open>join\<close> and \<open>strip\<close> count what Python
  counts. \<open>str ''abc''\<close> is the Python literal \<open>"abc"\<close>.
\<close>

type_synonym py_str = "nat list"

definition str :: "string \<Rightarrow> py_str" where
  "str s = map of_char s"

text \<open>
  Exceptions are values. \<open>exn_str e\<close> is Python's \<open>str(e)\<close>. \<open>RuntimeError\<close> stands for
  every other subclass of \<open>Exception\<close> an external collaborator may raise (network,
  timeout, encoding, model inference).
\<close>

datatype exn =
    ValueError py_str
  | IndexError py_str
  | AttributeError py_str
  | ImportError py_str
  | RuntimeError py_str

fun exn_str :: "exn \<Rightarrow> py_str" where
  "exn_str (ValueError m) = m"
| "exn_str (IndexError m) = m"
| "exn_str (AttributeError m) = m"
| "exn_str (ImportError m) = m"
| "exn_str (RuntimeError m) = m"

type_synonym 'a result = "exn + 'a"

text \<open>Truth value of an \<open>Optional[str]\<close>: \<open>None\<close> and the empty string are falsy.\<close>

fun truthy :: "py_str option \<Rightarrow> bool" where
  "truthy None = False"
| "truthy (Some s) = (s \<noteq> [])"

text \<open>\<open>x or d\<close> for an \<open>Optional[str]\<close> \<open>x\<close>.\<close>

definition py_or :: "py_str option \<Rightarrow> py_str \<Rightarrow> py_str" where
  "py_or x d = (if truthy x then the x else d)"

section \<open>Pillow images\<close>

text \<open>
  An image is its size and its pixels. Only the operations the enhancer calls are
  modelled (\<open>Image.crop\<close>, \<open>Image.new\<close>, \<open>Image.paste\<close>), as Pillow documents them.
\<close>

type_synonym rgb = "nat \<times> nat \<times> nat"

record image =
  width :: int
  height :: int
  pixel :: "int \<Rightarrow> int \<Rightarrow> rgb"

type_synonym region = "int \<times> int \<times> int \<times> int"

section \<open>datamodel/convert.py\<close>

datatype PictureAnnotationModelType = LOCAL | RUNPOD | OPENAI

text \<open>The \<open>.value\<close> of an enum member.\<close>

fun model_type_value :: "PictureAnnotationModelType \<Rightarrow> py_str" where
  "model_type_value LOCAL = str ''local''"
| "model_type_value RUNPOD = str ''runpod''"
| "model_type_value OPENAI = str ''openai''"

text \<open>
  The temperature is a float that the service only hands on to the backend; it is carried
  as the number it denotes.
\<close>

record RunPodAnnotationConfig =
  api_key :: py_str
  worker_id :: py_str
  model :: py_str
  prompt :: py_str
  temperature :: real

text \<open>The default prompt of \<open>RunPodAnnotationConfig\<close> (an Arabic sentence), as code points.\<close>

definition runpod_default_prompt :: py_str where
  "runpod_default_prompt =
    [1575, 1608, 1589, 1601, 1604, 1610, 32, 1575, 1604, 1589, 1608, 1585, 1577, 32,
     1583, 1610, 32, 1608, 1589, 1601, 32, 1585, 1610, 1575, 1590, 1610, 32, 1583,
     1602, 1610, 1602, 32, 1580, 1583, 1575, 1611, 32, 1580, 1583, 1575, 1611, 32,
     1608, 1582, 1604, 1610, 1603, 32, 1583, 1602, 1610, 1602, 32, 1604, 1575, 1603,
     1578, 1585, 32, 1583, 1585, 1580, 1607, 32, 1605, 1605, 1603, 1606, 1607]"

text \<open>
  \<open>RunPodAnnotationConfig(api_key=.., worker_id=.., model=..)\<close>: the fields not given take
  the class defaults.
\<close>

definition RunPodAnnotationConfig_new :: "py_str \<Rightarrow> py_str \<Rightarrow> py_str \<Rightarrow> RunPodAnnotationConfig" where
  "RunPodAnnotationConfig_new k w m =
    \<lparr>api_key = k, worker_id = w, model = m,
     prompt = runpod_default_prompt, temperature = 6 / 10\<rparr>"

record OpenAIAnnotationConfig =
  api_key :: py_str
  model :: py_str
  prompt :: py_str
  temperature :: real

text \<open>\<open>OpenAIAnnotationConfig(api_key=..)\<close>.\<close>

definition OpenAIAnnotationConfig_new :: "py_str \<Rightarrow> OpenAIAnnotationConfig" where
  "OpenAIAnnotationConfig_new k =
    \<lparr>api_key = k, model = str ''gpt-4-vision-preview'',
     prompt = str ''Describe this image in detail with mathematical precision.'',
     temperature = 6 / 10\<rparr>"

record PictureAnnotationOptions =
  model_type :: PictureAnnotationModelType
  runpod_config :: "RunPodAnnotationConfig option"
  openai_config :: "OpenAIAnnotationConfig option"

text \<open>The \<open>model_validator(mode="after")\<close> of \<open>PictureAnnotationOptions\<close>.\<close>

definition validate_model_config :: "PictureAnnotationOptions \<Rightarrow> PictureAnnotationOptions result" where
  "validate_model_config self =
    (if model_type self = RUNPOD \<and> runpod_config self = None then
       Inl (ValueError (str ''runpod_config is required when model_type is '' @ [39] @ str ''runpod'' @ [39]))
     else if model_type self = OPENAI \<and> openai_config self = None then
       Inl (ValueError (str ''openai_config is required when model_type is '' @ [39] @ str ''openai'' @ [39]))
     else Inr self)"

text \<open>
  Constructing \<open>PictureAnnotationOptions(model_type=.., runpod_config=.., openai_config=..)\<close>
  runs the validator on the new object.
\<close>

definition PictureAnnotationOptions_new ::
  "PictureAnnotationModelType \<Rightarrow> RunPodAnnotationConfig option \<Rightarrow> OpenAIAnnotationConfig option
    \<Rightarrow> PictureAnnotationOptions result" where
  "PictureAnnotationOptions_new mt rc oc =
    validate_model_config \<lparr>model_type = mt, runpod_config = rc, openai_config = oc\<rparr>"

text \<open>\<open>PictureAnnotationOptions()\<close>: every field at its default.\<close>

definition PictureAnnotationOptions_default :: "PictureAnnotationOptions result" where
  "PictureAnnotationOptions_default = PictureAnnotationOptions_new LOCAL None None"

text \<open>
  The fields of \<open>ConvertDocumentsOptions\<close> that its validator and the annotation stage
  read. \<open>PictureDescriptionLocal\<close> and \<open>PictureDescriptionApi\<close> are only tested against
  \<open>None\<close>, so their contents stay a type parameter.
\<close>

record ('l, 'a) ConvertDocumentsOptions =
  do_document_enhancement :: bool
  enable_character_encoding_fix :: bool
  picture_description_local :: "'l option"
  picture_description_api :: "'a option"
  picture_annotation :: "PictureAnnotationOptions option"

definition picture_description_exclusivity ::
  "('l, 'a) ConvertDocumentsOptions \<Rightarrow> ('l, 'a) ConvertDocumentsOptions result" where
  "picture_description_exclusivity self =
    (if picture_description_local self \<noteq> None \<and> picture_description_api self \<noteq> None then
       Inl (ValueError (str ''The parameters picture_description_local and picture_description_api are mutually exclusive, only one of them can be set.''))
     else Inr self)"

section \<open>picture_annotation/models.py\<close>

record AnnotationResult =
  text' :: py_str
  provenance :: py_str
  confidence :: "real option"
  error :: "py_str option"

section \<open>picture_annotation/annotation_service.py\<close>

text \<open>
  The chat-completion request: the client's \<open>base_url\<close> (\<open>None\<close> is the client's default
  endpoint) and \<open>api_key\<close>, and the arguments of \<open>chat.completions.create\<close>.
\<close>

datatype content_block =
    Image_url (url: py_str) (detail: py_str)
  | Text_block py_str

record message =
  role :: py_str
  content :: "content_block list"

record chat_request =
  req_base_url :: "py_str option"
  req_api_key :: py_str
  req_model :: py_str
  req_messages :: "message list"
  req_temperature :: real

text \<open>The response: for each choice, its \<open>message.content\<close>.\<close>

record chat_response =
  choices :: "py_str option list"

text \<open>
  The external collaborators of the service: encoding an image as PNG
  (\<open>image.save(buffered, format="PNG")\<close>, which may raise), \<open>base64.b64encode(..).decode\<close>,
  and the chat-completion endpoint: the client built for the request and its
  \<open>chat.completions.create\<close>, which may raise (network, timeout, a malformed response).
\<close>

record collaborators =
  save_png :: "image \<Rightarrow> nat list result"
  b64encode :: "nat list \<Rightarrow> py_str"
  chat_completions_create :: "chat_request \<Rightarrow> chat_response result"

text \<open>
  The world outside the service: the process environment, and the requests sent to a
  chat-completion endpoint so far.
\<close>

record world =
  environ :: "py_str \<rightharpoonup> py_str"
  backend_calls :: "chat_request list"

text \<open>\<open>os.getenv(name)\<close> and \<open>os.getenv(name, default)\<close>.\<close>

definition getenv :: "world \<Rightarrow> py_str \<Rightarrow> py_str option" where
  "getenv w name = environ w name"

definition getenv_default :: "world \<Rightarrow> py_str \<Rightarrow> py_str \<Rightarrow> py_str" where
  "getenv_default w name d = (case environ w name of None \<Rightarrow> d | Some v \<Rightarrow> v)"

record PictureAnnotationService =
  options :: PictureAnnotationOptions

definition runpod_missing_message :: py_str where
  "runpod_missing_message =
    str ''RunPod configuration missing. Either provide runpod_config '' @
    str ''or set RUNPOD_API_KEY and RUNPOD_WORKER environment variables.''"

definition openai_missing_message :: py_str where
  "openai_missing_message =
    str ''OpenAI configuration missing. Either provide openai_config '' @
    str ''or set OPENAI_API_KEY environment variable.''"

text \<open>
  \<open>_validate_configuration\<close>: returns the options as the method leaves them
  (\<open>self.options.runpod_config\<close> or \<open>self.options.openai_config\<close> assigned), or the
  exception it raises. A config object is always truthy, so \<open>not self.options.runpod_config\<close>
  is the test against \<open>None\<close>.
\<close>

definition validate_configuration ::
  "PictureAnnotationOptions \<Rightarrow> world \<Rightarrow> PictureAnnotationOptions result \<times> world" where
  "validate_configuration opts w =
    (if model_type opts = RUNPOD then
       (if runpod_config opts = None then
          (let api_key = getenv w (str ''RUNPOD_API_KEY'');
               worker_id = getenv w (str ''RUNPOD_WORKER'');
               model = getenv_default w (str ''RUNPOD_MODEL'') (str ''Qwen/Qwen2.5-VL-3B-Instruct'')
           in if \<not> truthy api_key \<or> \<not> truthy worker_id then
                (Inl (ValueError runpod_missing_message), w)
              else
                (Inr (opts\<lparr>runpod_config :=
                   Some (RunPodAnnotationConfig_new (the api_key) (the worker_id) model)\<rparr>), w))
        else (Inr opts, w))
     else if model_type opts = OPENAI then
       (if openai_config opts = None then
          (let api_key = getenv w (str ''OPENAI_API_KEY'')
           in if \<not> truthy api_key then
                (Inl (ValueError openai_missing_message), w)
              else
                (Inr (opts\<lparr>openai_config := Some (OpenAIAnnotationConfig_new (the api_key))\<rparr>), w))
        else (Inr opts, w))
     else (Inr opts, w))"

text \<open>
  \<open>__init__\<close>: \<open>self.options = options or PictureAnnotationOptions()\<close> (an options
  object is always truthy, so the default is taken for \<open>None\<close> only), then
  \<open>self._validate_configuration()\<close>.
\<close>

definition PictureAnnotationService_init ::
  "PictureAnnotationOptions option \<Rightarrow> world \<Rightarrow> PictureAnnotationService result \<times> world" where
  "PictureAnnotationService_init opts w =
    (case (case opts of Some given \<Rightarrow> Inr given | None \<Rightarrow> PictureAnnotationOptions_default) of
       Inl e \<Rightarrow> (Inl e, w)
     | Inr chosen \<Rightarrow>
         (case validate_configuration chosen w of
            (Inl e, w') \<Rightarrow> (Inl e, w')
          | (Inr resolved, w') \<Rightarrow> (Inr \<lparr>options = resolved\<rparr>, w')))"

definition annotate_with_local_model ::
  "PictureAnnotationService \<Rightarrow> image \<Rightarrow> world \<Rightarrow> AnnotationResult result \<times> world" where
  "annotate_with_local_model self img w =
    (Inr \<lparr>text' = str ''Local model annotation placeholder'',
          provenance = str ''local_model'', confidence = None, error = None\<rparr>, w)"

text \<open>The single-turn message both API backends send.\<close>

definition user_message :: "py_str \<Rightarrow> py_str \<Rightarrow> py_str \<Rightarrow> message" where
  "user_message img_str detail_level prompt_text =
    \<lparr>role = str ''user'',
     content = [Image_url (str ''data:image/png;base64,'' @ img_str) detail_level,
                Text_block prompt_text]\<rparr>"

text \<open>
  What follows the request in both backends: \<open>response.choices[0].message.content or ""\<close>
  (an \<open>IndexError\<close> when there is no choice), wrapped in an \<open>AnnotationResult\<close>.
\<close>

definition first_choice_result :: "chat_response \<Rightarrow> py_str \<Rightarrow> AnnotationResult result" where
  "first_choice_result response prov =
    (case choices response of
       [] \<Rightarrow> Inl (IndexError (str ''list index out of range''))
     | c # _ \<Rightarrow> Inr \<lparr>text' = py_or c [], provenance = prov, confidence = None, error = None\<rparr>)"

text \<open>
  The client and the request of \<open>_annotate_with_runpod\<close>:
  \<open>OpenAI(base_url=f"https://api.runpod.ai/v2/{config.worker_id}/openai/v1", api_key=..)\<close>
  and the arguments of \<open>client.chat.completions.create\<close>.
\<close>

definition runpod_request :: "RunPodAnnotationConfig \<Rightarrow> py_str \<Rightarrow> chat_request" where
  "runpod_request config img_str =
    (let base_url = str ''https://api.runpod.ai/v2/'' @ worker_id config @ str ''/openai/v1''
     in \<lparr>req_base_url = Some base_url,
         req_api_key = RunPodAnnotationConfig.api_key config,
         req_model = RunPodAnnotationConfig.model config,
         req_messages = [user_message img_str (str ''low'') (RunPodAnnotationConfig.prompt config)],
         req_temperature = RunPodAnnotationConfig.temperature config\<rparr>)"

definition annotate_with_runpod ::
  "collaborators \<Rightarrow> PictureAnnotationService \<Rightarrow> image \<Rightarrow> world \<Rightarrow> AnnotationResult result \<times> world" where
  "annotate_with_runpod ext self img w =
    (case runpod_config (options self) of
       None \<Rightarrow> (Inl (ValueError (str ''RunPod configuration not available'')), w)
     | Some config \<Rightarrow>
         (case save_png ext img of
            Inl e \<Rightarrow> (Inl e, w)
          | Inr buffered \<Rightarrow>
              (let img_str = b64encode ext buffered;
                   request = runpod_request config img_str;
                   w' = w\<lparr>backend_calls := backend_calls w @ [request]\<rparr>
               in case chat_completions_create ext request of
                    Inl e \<Rightarrow> (Inl e, w')
                  | Inr response \<Rightarrow>
                      (first_choice_result response
                         (str ''runpod:'' @ RunPodAnnotationConfig.model config), w'))))"

text \<open>
  The client and the request of \<open>_annotate_with_openai\<close>: \<open>OpenAI(api_key=..)\<close> has no
  \<open>base_url\<close>.
\<close>

definition openai_request :: "OpenAIAnnotationConfig \<Rightarrow> py_str \<Rightarrow> chat_request" where
  "openai_request config img_str =
    \<lparr>req_base_url = None,
     req_api_key = OpenAIAnnotationConfig.api_key config,
     req_model = OpenAIAnnotationConfig.model config,
     req_messages = [user_message img_str (str ''high'') (OpenAIAnnotationConfig.prompt config)],
     req_temperature = OpenAIAnnotationConfig.temperature config\<rparr>"

definition annotate_with_openai ::
  "collaborators \<Rightarrow> PictureAnnotationService \<Rightarrow> image \<Rightarrow> world \<Rightarrow> AnnotationResult result \<times> world" where
  "annotate_with_openai ext self img w =
    (case openai_config (options self) of
       None \<Rightarrow> (Inl (ValueError (str ''OpenAI configuration not available'')), w)
     | Some config \<Rightarrow>
         (case save_png ext img of
            Inl e \<Rightarrow> (Inl e, w)
          | Inr buffered \<Rightarrow>
              (let img_str = b64encode ext buffered;
                   request = openai_request config img_str;
                   w' = w\<lparr>backend_calls := backend_calls w @ [request]\<rparr>
               in case chat_completions_create ext request of
                    Inl e \<Rightarrow> (Inl e, w')
                  | Inr response \<Rightarrow>
                      (first_choice_result response
                         (str ''openai:'' @ OpenAIAnnotationConfig.model config), w'))))"

text \<open>
  The body of the \<open>try\<close> in \<open>annotate_image\<close>. \<open>model_type\<close> is a member of the
  enumeration, so one of the three branches is taken and the final \<open>else\<close> (the
  \<open>ValueError\<close> for an unsupported type) has no value to run on.
\<close>

definition dispatch ::
  "collaborators \<Rightarrow> PictureAnnotationService \<Rightarrow> image \<Rightarrow> world \<Rightarrow> AnnotationResult result \<times> world" where
  "dispatch ext self img w =
    (if model_type (options self) = LOCAL then annotate_with_local_model self img w
     else if model_type (options self) = RUNPOD then annotate_with_runpod ext self img w
     else annotate_with_openai ext self img w)"

text \<open>
  \<open>annotate_image\<close>: the \<open>try\<close> body, and the \<open>except Exception\<close> handler that builds the
  error result. The value is \<open>Inl\<close> if an exception leaves the method.
\<close>

definition annotate_image ::
  "collaborators \<Rightarrow> PictureAnnotationService \<Rightarrow> image \<Rightarrow> world \<Rightarrow> AnnotationResult result \<times> world" where
  "annotate_image ext self img w =
    (case dispatch ext self img w of
       (Inr r, w') \<Rightarrow> (Inr r, w')
     | (Inl e, w') \<Rightarrow>
         (Inr \<lparr>text' = [], provenance = model_type_value (model_type (options self)),
               confidence = None, error = Some (exn_str e)\<rparr>, w'))"

section \<open>document_enhancement/ocr_enhancer.py\<close>

subsection \<open>The Pillow operations\<close>

text \<open>
  \<open>Image.crop(box)\<close> raises a \<open>ValueError\<close> on a box whose right edge is left of its left
  edge, or whose lower edge is above its upper edge; otherwise the result has the size of
  the box, and the pixels of the box (black outside the source).
\<close>

definition Image_crop :: "image \<Rightarrow> region \<Rightarrow> image result" where
  "Image_crop im box =
    (case box of (left, upper, right, lower) \<Rightarrow>
       if right < left then
         Inl (ValueError (str ''Coordinate '' @ [39] @ str ''right'' @ [39] @
                          str '' is less than '' @ [39] @ str ''left'' @ [39]))
       else if lower < upper then
         Inl (ValueError (str ''Coordinate '' @ [39] @ str ''lower'' @ [39] @
                          str '' is less than '' @ [39] @ str ''upper'' @ [39]))
       else
         Inr \<lparr>width = right - left, height = lower - upper,
              pixel = (\<lambda>x y.
                if 0 \<le> x + left \<and> x + left < width im \<and> 0 \<le> y + upper \<and> y + upper < height im
                then pixel im (x + left) (y + upper) else (0, 0, 0))\<rparr>)"

text \<open>\<open>Image.new("RGB", size, color)\<close>: a negative size is a \<open>ValueError\<close>.\<close>

definition Image_new :: "int \<times> int \<Rightarrow> rgb \<Rightarrow> image result" where
  "Image_new dims color =
    (case dims of (w, h) \<Rightarrow>
       if w < 0 \<or> h < 0 then Inl (ValueError (str ''Width and height must be >= 0''))
       else Inr \<lparr>width = w, height = h, pixel = (\<lambda>x y. color)\<rparr>)"

text \<open>
  \<open>background.paste(im, (x, y))\<close> changes \<open>background\<close> in place; the value is the
  background after the call.
\<close>

definition Image_paste :: "image \<Rightarrow> image \<Rightarrow> int \<times> int \<Rightarrow> image" where
  "Image_paste background im pos =
    (case pos of (px, py) \<Rightarrow>
       background\<lparr>pixel := (\<lambda>x y.
         if px \<le> x \<and> x < px + width im \<and> py \<le> y \<and> y < py + height im
         then pixel im (x - px) (y - py) else pixel background x y)\<rparr>)"

subsection \<open>The Surya predictors\<close>

text \<open>
  A recognized line. The confidence is a finite float, carried as the number it denotes:
  the comparison with 0.5 is then the comparison of the code.
\<close>

record TextLine =
  text' :: py_str
  confidence :: real

record OCRResult =
  text_lines :: "TextLine list"

text \<open>
  The bounding boxes of table cells are floating-point rectangles that the enhancer only
  hands to the converter; they are carried as they are.
\<close>

type_synonym fbox = "real \<times> real \<times> real \<times> real"

record SuryaCell =
  row_id :: int
  col_id :: int
  surya_bbox :: fbox

record TableResult =
  cells :: "SuryaCell list"

text \<open>
  \<open>recognition_predictor(images, det_predictor=.., math_mode=.., task_names=..)\<close> and
  \<open>table_rec_predictor(images)\<close> are external models that may raise. The detection
  predictor is a handle the recognition predictor is given; it is part of that function
  here. An attribute that \<open>__init__\<close> did not assign is \<open>None\<close>.
\<close>

type_synonym recognition = "image list \<Rightarrow> bool \<Rightarrow> py_str list \<Rightarrow> OCRResult list result"

type_synonym table_rec = "image list \<Rightarrow> TableResult list result"

record OCREnhancer =
  models_loaded :: bool
  recognition_predictor :: "recognition option"
  table_rec_predictor :: "table_rec option"

text \<open>The exception of reading an attribute that the enhancer does not have.\<close>

definition no_attribute :: "py_str \<Rightarrow> exn" where
  "no_attribute name =
    AttributeError ([39] @ str ''OCREnhancer'' @ [39] @ str '' object has no attribute '' @
                    [39] @ name @ [39])"

subsection \<open>extract_text_from_region\<close>

text \<open>The crop rectangle: the four assignments after \<open>thr = 2\<close>.\<close>

definition crop_box :: "image \<Rightarrow> region \<Rightarrow> region" where
  "crop_box img bbox =
    (case bbox of (x1, y1, x2, y2) \<Rightarrow>
       (let thr = 2;
            left = max (x1 - thr) 0;
            top = max (y1 - thr) 0;
            right = min (x2 + thr) (width img);
            bottom = min (y2 + thr) (height img)
        in (left, top, right, bottom)))"

text \<open>\<open>(bg_w, bg_h)\<close>.\<close>

definition canvas_size :: "image \<Rightarrow> int \<times> int" where
  "canvas_size cropped =
    (let scale_w = 3; scale_h = 3;
         bg_w = width cropped * scale_w;
         bg_h = height cropped * scale_h
     in (bg_w, bg_h))"

text \<open>\<open>(paste_x, paste_y)\<close>.\<close>

definition paste_position :: "image \<Rightarrow> int \<times> int" where
  "paste_position cropped =
    (case canvas_size cropped of (bg_w, bg_h) \<Rightarrow>
       (let paste_x = (bg_w - width cropped) div 2;
            paste_y = (bg_h - height cropped) div 2
        in (paste_x, paste_y)))"

text \<open>The image handed to the recognizer: crop, white canvas, paste.\<close>

definition padded_background :: "image \<Rightarrow> region \<Rightarrow> image result" where
  "padded_background img bbox =
    (case Image_crop img (crop_box img bbox) of
       Inl e \<Rightarrow> Inl e
     | Inr cropped \<Rightarrow>
         (case Image_new (canvas_size cropped) (255, 255, 255) of
            Inl e \<Rightarrow> Inl e
          | Inr background \<Rightarrow> Inr (Image_paste background cropped (paste_position cropped))))"

text \<open>The loop over \<open>predictions[0].text_lines\<close>, appending to \<open>lines\<close>.\<close>

fun collect_lines :: "py_str list \<Rightarrow> TextLine list \<Rightarrow> py_str list" where
  "collect_lines lines [] = lines"
| "collect_lines lines (line # rest) =
    collect_lines
      (if TextLine.confidence line > 5 / 10 then lines @ [TextLine.text' line] else lines) rest"

text \<open>\<open>sep.join(parts)\<close>.\<close>

fun join :: "py_str \<Rightarrow> py_str list \<Rightarrow> py_str" where
  "join sep [] = []"
| "join sep [p] = p"
| "join sep (p # q # ps) = p @ sep @ join sep (q # ps)"

text \<open>\<open>str.isspace\<close> on one code point, and \<open>str.strip()\<close>.\<close>

definition isspace :: "nat \<Rightarrow> bool" where
  "isspace c =
    ((9 \<le> c \<and> c \<le> 13) \<or> (28 \<le> c \<and> c \<le> 32) \<or> c = 133 \<or> c = 160 \<or> c = 5760 \<or>
     (8192 \<le> c \<and> c \<le> 8202) \<or> c = 8232 \<or> c = 8233 \<or> c = 8239 \<or> c = 8287 \<or> c = 12288)"

definition strip :: "py_str \<Rightarrow> py_str" where
  "strip s = rev (dropWhile isspace (rev (dropWhile isspace s)))"

text \<open>\<open>enhanced_text\<close>, from the predictions.\<close>

definition merge_lines :: "OCRResult list \<Rightarrow> py_str" where
  "merge_lines predictions =
    (let lines = (case predictions of [] \<Rightarrow> [] | first # _ \<Rightarrow> collect_lines [] (text_lines first))
     in strip (join (str '' '') lines))"

text \<open>The body of the \<open>try\<close> in \<open>extract_text_from_region\<close>.\<close>

definition extract_try :: "OCREnhancer \<Rightarrow> image \<Rightarrow> region \<Rightarrow> py_str \<Rightarrow> py_str result" where
  "extract_try self img bbox old_text =
    (case padded_background img bbox of
       Inl e \<Rightarrow> Inl e
     | Inr background \<Rightarrow>
         (case recognition_predictor self of
            None \<Rightarrow> Inl (no_attribute (str ''recognition_predictor''))
          | Some predictor \<Rightarrow>
              (case predictor [background] True [str ''ocr_with_boxes''] of
                 Inl e \<Rightarrow> Inl e
               | Inr predictions \<Rightarrow>
                   (let enhanced_text = merge_lines predictions
                    in Inr (if enhanced_text \<noteq> [] then enhanced_text else old_text)))))"

text \<open>
  \<open>extract_text_from_region\<close>: the guard, the \<open>try\<close> body and the \<open>except Exception\<close>
  handler. The value is \<open>Inl\<close> if an exception leaves the method.
\<close>

definition extract_text_from_region :: "OCREnhancer \<Rightarrow> image \<Rightarrow> region \<Rightarrow> py_str \<Rightarrow> py_str result" where
  "extract_text_from_region self img bbox old_text =
    (if \<not> models_loaded self then Inr old_text
     else (case extract_try self img bbox old_text of
             Inr s \<Rightarrow> Inr s
           | Inl e \<Rightarrow> Inr old_text))"

subsection \<open>enhance_table_structure\<close>

text \<open>A cell of \<open>table_item.data.table_cells\<close>.\<close>

record TableCell =
  start_row_offset_idx :: int
  start_col_offset_idx :: int
  text' :: py_str
  bbox :: fbox

text \<open>
  \<open>BoundingBoxConverter.update_cell_bbox(cell, surya_cell, table_bbox, page_dim, pdf_w, pdf_h)\<close>
  is defined in a module that is not among the sources. It is a parameter of the model:
  a call changes the cell it is given in place and may raise, so its value is the outcome
  and the cell as the call leaves it.
\<close>

type_synonym converter =
  "TableCell \<Rightarrow> SuryaCell \<Rightarrow> region \<Rightarrow> int \<times> int \<Rightarrow> real \<Rightarrow> real \<Rightarrow> unit result \<times> TableCell"

text \<open>The dictionary comprehension: a later cell with the same key replaces an earlier one.\<close>

definition surya_cell_dict :: "SuryaCell list \<Rightarrow> (int \<times> int \<rightharpoonup> SuryaCell)" where
  "surya_cell_dict cs = foldl (\<lambda>d cell. d((row_id cell, col_id cell) \<mapsto> cell)) Map.empty cs"

text \<open>
  The loop over \<open>table_item.data.table_cells\<close>. The cells are objects changed in place:
  the value is the outcome of the loop and the cells as it leaves them, the loop ending
  at the first call that raises.
\<close>

fun update_cells ::
  "converter \<Rightarrow> (int \<times> int \<rightharpoonup> SuryaCell) \<Rightarrow> region \<Rightarrow> int \<times> int \<Rightarrow> real \<Rightarrow> real
    \<Rightarrow> TableCell list \<Rightarrow> unit result \<times> TableCell list" where
  "update_cells upd d table_bbox page_dim pdf_w pdf_h [] = (Inr (), [])"
| "update_cells upd d table_bbox page_dim pdf_w pdf_h (cell # rest) =
    (case d (start_row_offset_idx cell, start_col_offset_idx cell) of
       None \<Rightarrow>
         (case update_cells upd d table_bbox page_dim pdf_w pdf_h rest of
            (r, rest') \<Rightarrow> (r, cell # rest'))
     | Some surya_cell \<Rightarrow>
         (case upd cell surya_cell table_bbox page_dim pdf_w pdf_h of
            (Inl e, cell') \<Rightarrow> (Inl e, cell' # rest)
          | (Inr u, cell') \<Rightarrow>
              (case update_cells upd d table_bbox page_dim pdf_w pdf_h rest of
                 (r, rest') \<Rightarrow> (r, cell' # rest'))))"

text \<open>
  The body of the \<open>try\<close>: the import of the converter (which may fail), the table
  predictor, and the loop.
\<close>

definition enhance_try ::
  "converter result \<Rightarrow> OCREnhancer \<Rightarrow> image \<Rightarrow> int \<times> int \<Rightarrow> TableCell list \<Rightarrow> region
    \<Rightarrow> real \<Rightarrow> real \<Rightarrow> unit result \<times> TableCell list" where
  "enhance_try bbox_utils self table_image page_dim table_cells table_bbox pdf_w pdf_h =
    (case bbox_utils of
       Inl e \<Rightarrow> (Inl e, table_cells)
     | Inr upd \<Rightarrow>
         (case table_rec_predictor self of
            None \<Rightarrow> (Inl (no_attribute (str ''table_rec_predictor'')), table_cells)
          | Some predictor \<Rightarrow>
              (case predictor [table_image] of
                 Inl e \<Rightarrow> (Inl e, table_cells)
               | Inr [] \<Rightarrow> (Inr (), table_cells)
               | Inr (surya_table # _) \<Rightarrow>
                   update_cells upd (surya_cell_dict (cells surya_table))
                     table_bbox page_dim pdf_w pdf_h table_cells)))"

text \<open>
  \<open>enhance_table_structure\<close>: the guard, the \<open>try\<close> body and the handler, which only logs.
  The value is the outcome at the caller (\<open>Inl\<close> if an exception leaves the method) and
  the cells of \<open>table_item\<close> after the call.
\<close>

definition enhance_table_structure ::
  "converter result \<Rightarrow> OCREnhancer \<Rightarrow> image \<Rightarrow> int \<times> int \<Rightarrow> TableCell list \<Rightarrow> region
    \<Rightarrow> real \<Rightarrow> real \<Rightarrow> unit result \<times> TableCell list" where
  "enhance_table_structure bbox_utils self table_image page_dim table_cells table_bbox pdf_w pdf_h =
    (if \<not> models_loaded self then (Inr (), table_cells)
     else (case enhance_try bbox_utils self table_image page_dim table_cells table_bbox pdf_w pdf_h of
             (Inr u, cells') \<Rightarrow> (Inr (), cells')
           | (Inl e, cells') \<Rightarrow> (Inr (), cells')))"

section \<open>Example inputs\<close>

text \<open>Concrete values at which the theorems below are instantiated.\<close>

definition example_image :: image where
  "example_image = \<lparr>width = 100, height = 100, pixel = (\<lambda>x y. (0, 0, 0))\<rparr>"

definition example_world :: world where
  "example_world = \<lparr>environ = Map.empty, backend_calls = []\<rparr>"

definition example_runpod_config :: RunPodAnnotationConfig where
  "example_runpod_config =
    RunPodAnnotationConfig_new (str ''rp-key'') (str ''worker1'') (str ''Qwen/Qwen2.5-VL-3B-Instruct'')"

definition example_openai_config :: OpenAIAnnotationConfig where
  "example_openai_config = OpenAIAnnotationConfig_new (str ''sk-key'')"

text \<open>A backend whose single choice is \<open>"a red car"\<close>, and one whose call times out.\<close>

definition backend_red_car :: collaborators where
  "backend_red_car =
    \<lparr>save_png = (\<lambda>img. Inr [137, 80, 78, 71]),
     b64encode = (\<lambda>b. str ''iVBORw==''),
     chat_completions_create = (\<lambda>req. Inr \<lparr>choices = [Some (str ''a red car'')]\<rparr>)\<rparr>"

definition backend_timeout :: collaborators where
  "backend_timeout =
    \<lparr>save_png = (\<lambda>img. Inr [137, 80, 78, 71]),
     b64encode = (\<lambda>b. str ''iVBORw==''),
     chat_completions_create = (\<lambda>req. Inl (RuntimeError (str ''Request timed out.'')))\<rparr>"

text \<open>
  A recognizer that reads two lines, \<open>"Hello"\<close> at confidence 0.9 and \<open>"xx"\<close> at 0.3, and a
  table predictor that finds the cells (0, 0) and (0, 1).
\<close>

definition example_recognizer :: recognition where
  "example_recognizer = (\<lambda>images math_mode task_names.
     Inr [\<lparr>text_lines = [\<lparr>TextLine.text' = str ''Hello'', TextLine.confidence = 9 / 10\<rparr>,
                          \<lparr>TextLine.text' = str ''xx'', TextLine.confidence = 3 / 10\<rparr>]\<rparr>])"

definition example_table_rec :: table_rec where
  "example_table_rec = (\<lambda>images.
     Inr [\<lparr>cells = [\<lparr>row_id = 0, col_id = 0, surya_bbox = (0, 0, 10, 10)\<rparr>,
                     \<lparr>row_id = 0, col_id = 1, surya_bbox = (10, 0, 20, 10)\<rparr>]\<rparr>])"

definition example_enhancer :: OCREnhancer where
  "example_enhancer =
    \<lparr>models_loaded = True, recognition_predictor = Some example_recognizer,
     table_rec_predictor = Some example_table_rec\<rparr>"

text \<open>An enhancer whose table predictor raises.\<close>

definition failing_enhancer :: OCREnhancer where
  "failing_enhancer =
    \<lparr>models_loaded = True, recognition_predictor = Some example_recognizer,
     table_rec_predictor = Some (\<lambda>images. Inl (RuntimeError (str ''out of memory'')))\<rparr>"

text \<open>Three table cells, at (0, 0), (0, 1) and (1, 0).\<close>

definition example_cells :: "TableCell list" where
  "example_cells =
    [\<lparr>start_row_offset_idx = 0, start_col_offset_idx = 0, text' = str ''a'', bbox = (1, 1, 2, 2)\<rparr>,
     \<lparr>start_row_offset_idx = 0, start_col_offset_idx = 1, text' = str ''b'', bbox = (3, 3, 4, 4)\<rparr>,
     \<lparr>start_row_offset_idx = 1, start_col_offset_idx = 0, text' = str ''c'', bbox = (5, 5, 6, 6)\<rparr>]"

text \<open>
  A converter that takes the model's box as the new box, and one that does the same but
  raises on the cells of column 1.
\<close>

definition example_converter :: converter where
  "example_converter = (\<lambda>cell surya_cell table_bbox page_dim pdf_w pdf_h.
     (Inr (), cell\<lparr>bbox := surya_bbox surya_cell\<rparr>))"

definition failing_converter :: converter where
  "failing_converter = (\<lambda>cell surya_cell table_bbox page_dim pdf_w pdf_h.
     if col_id surya_cell = 1 then (Inl (ValueError (str ''bad box'')), cell)
     else (Inr (), cell\<lparr>bbox := surya_bbox surya_cell\<rparr>))"

section \<open>The annotation service\<close>

subsection \<open>Auxiliary facts\<close>

lemma default_options:
  "PictureAnnotationOptions_default =
     Inr \<lparr>model_type = LOCAL, runpod_config = None, openai_config = None\<rparr>"
  by (simp add: PictureAnnotationOptions_default_def PictureAnnotationOptions_new_def
      validate_model_config_def)

lemma py_or_empty: "py_or c [] = (case c of None \<Rightarrow> [] | Some t \<Rightarrow> t)"
  by (cases c) (auto simp: py_or_def)

lemma model_type_value_nonempty: "model_type_value k \<noteq> []"
  by (cases k) (simp_all add: str_def)

text \<open>A result that a backend handler returns carries no error and names its backend.\<close>

lemma dispatch_success_shape:
  "dispatch ext self img w = (Inr r, w') \<Longrightarrow> error r = None \<and> provenance r \<noteq> []"
  by (auto simp: dispatch_def annotate_with_local_model_def annotate_with_runpod_def
      annotate_with_openai_def first_choice_result_def str_def Let_def
      split: if_splits option.splits sum.splits list.splits)

lemma init_keeps_world: "snd (PictureAnnotationService_init given w) = w"
  by (auto simp: PictureAnnotationService_init_def validate_configuration_def Let_def
      split: option.splits sum.splits prod.splits if_splits)

lemma init_runpod_from_environment:
  assumes "model_type opts = RUNPOD" "runpod_config opts = None"
  shows "PictureAnnotationService_init (Some opts) w =
    (if truthy (environ w (str ''RUNPOD_API_KEY'')) \<and> truthy (environ w (str ''RUNPOD_WORKER''))
     then (Inr \<lparr>options = opts\<lparr>runpod_config := Some
              (RunPodAnnotationConfig_new
                 (the (environ w (str ''RUNPOD_API_KEY'')))
                 (the (environ w (str ''RUNPOD_WORKER'')))
                 (case environ w (str ''RUNPOD_MODEL'') of
                    None \<Rightarrow> str ''Qwen/Qwen2.5-VL-3B-Instruct'' | Some m \<Rightarrow> m))\<rparr>\<rparr>, w)
     else (Inl (ValueError runpod_missing_message), w))"
  using assms
  by (simp add: PictureAnnotationService_init_def validate_configuration_def Let_def
      getenv_def getenv_default_def)

lemma init_openai_from_environment:
  assumes "model_type opts = OPENAI" "openai_config opts = None"
  shows "PictureAnnotationService_init (Some opts) w =
    (if truthy (environ w (str ''OPENAI_API_KEY''))
     then (Inr \<lparr>options = opts\<lparr>openai_config := Some
              (OpenAIAnnotationConfig_new (the (environ w (str ''OPENAI_API_KEY''))))\<rparr>\<rparr>, w)
     else (Inl (ValueError openai_missing_message), w))"
  using assms
  by (simp add: PictureAnnotationService_init_def validate_configuration_def Let_def getenv_def)

lemma missing_messages_name_variables:
  "sublist (str ''RUNPOD_API_KEY'') runpod_missing_message"
  "sublist (str ''RUNPOD_WORKER'') runpod_missing_message"
  "sublist (str ''OPENAI_API_KEY'') openai_missing_message"
  by code_simp+

lemma init_selected_config_present:
  assumes "PictureAnnotationService_init (Some opts) w = (Inr svc, w')"
  shows "model_type (options svc) = model_type opts \<and>
    (model_type opts = RUNPOD \<longrightarrow> runpod_config (options svc) \<noteq> None) \<and>
    (model_type opts = OPENAI \<longrightarrow> openai_config (options svc) \<noteq> None)"
  using assms
  by (auto simp: PictureAnnotationService_init_def validate_configuration_def Let_def
      split: if_splits)

lemma dispatch_ignores_openai_config:
  "model_type opts \<noteq> OPENAI \<Longrightarrow>
     dispatch ext \<lparr>options = opts\<lparr>openai_config := x\<rparr>\<rparr> img w = dispatch ext \<lparr>options = opts\<rparr> img w"
  by (cases "model_type opts")
     (simp_all add: dispatch_def annotate_with_local_model_def annotate_with_runpod_def)

lemma dispatch_ignores_runpod_config:
  "model_type opts \<noteq> RUNPOD \<Longrightarrow>
     dispatch ext \<lparr>options = opts\<lparr>runpod_config := y\<rparr>\<rparr> img w = dispatch ext \<lparr>options = opts\<rparr> img w"
  by (cases "model_type opts")
     (simp_all add: dispatch_def annotate_with_local_model_def annotate_with_openai_def)

lemma annotate_openai_success:
  assumes "model_type (options self) = OPENAI" "openai_config (options self) = Some oc"
    "save_png ext img = Inr png"
    "chat_completions_create ext (openai_request oc (b64encode ext png)) = Inr response"
    "choices response = c # cs"
  shows "annotate_image ext self img w =
     (Inr \<lparr>AnnotationResult.text' = (case c of None \<Rightarrow> [] | Some t \<Rightarrow> t),
           provenance = str ''openai:'' @ OpenAIAnnotationConfig.model oc,
           AnnotationResult.confidence = None, error = None\<rparr>,
      w\<lparr>backend_calls := backend_calls w @ [openai_request oc (b64encode ext png)]\<rparr>)"
  using assms
  by (simp add: annotate_image_def dispatch_def annotate_with_openai_def Let_def
      first_choice_result_def py_or_empty)

lemma annotate_runpod_success:
  assumes "model_type (options self) = RUNPOD" "runpod_config (options self) = Some rc"
    "save_png ext img = Inr png"
    "chat_completions_create ext (runpod_request rc (b64encode ext png)) = Inr response"
    "choices response = c # cs"
  shows "annotate_image ext self img w =
     (Inr \<lparr>AnnotationResult.text' = (case c of None \<Rightarrow> [] | Some t \<Rightarrow> t),
           provenance = str ''runpod:'' @ RunPodAnnotationConfig.model rc,
           AnnotationResult.confidence = None, error = None\<rparr>,
      w\<lparr>backend_calls := backend_calls w @ [runpod_request rc (b64encode ext png)]\<rparr>)"
  using assms
  by (simp add: annotate_image_def dispatch_def annotate_with_runpod_def Let_def
      first_choice_result_def py_or_empty)

lemma request_shape:
  "req_base_url (runpod_request rc s) =
     Some (str ''https://api.runpod.ai/v2/'' @ worker_id rc @ str ''/openai/v1'')"
  "req_base_url (openai_request oc s) = None"
  "req_messages (runpod_request rc s) =
     [\<lparr>role = str ''user'',
       content = [Image_url (str ''data:image/png;base64,'' @ s) (str ''low''),
                  Text_block (RunPodAnnotationConfig.prompt rc)]\<rparr>]"
  "req_messages (openai_request oc s) =
     [\<lparr>role = str ''user'',
       content = [Image_url (str ''data:image/png;base64,'' @ s) (str ''high''),
                  Text_block (OpenAIAnnotationConfig.prompt oc)]\<rparr>]"
  by (simp_all add: runpod_request_def openai_request_def user_message_def Let_def)

subsection \<open>The dispatcher never raises\<close>

text \<open>
  Claim C1. For every image, every service and every behaviour of the collaborators,
  \<open>annotate_image\<close> returns an \<open>AnnotationResult\<close> and no exception leaves it. An exception
  raised in the dispatch (a missing configuration, the PNG encoding, the backend call,
  a response without choices) becomes the result with empty text, the \<open>.value\<close> of the
  model type as provenance, and \<open>str(e)\<close> as error. So in every result, an error that is
  set comes with an empty text, and the provenance is never empty.
\<close>

theorem annotate_image_never_raises:
  "\<exists>r w'. annotate_image ext self img w = (Inr r, w') \<and>
     provenance r \<noteq> [] \<and>
     (error r \<noteq> None \<longrightarrow>
        AnnotationResult.text' r = [] \<and>
        provenance r = model_type_value (model_type (options self))) \<and>
     (\<forall>e. fst (dispatch ext self img w) = Inl e \<longrightarrow>
        r = \<lparr>AnnotationResult.text' = [],
             provenance = model_type_value (model_type (options self)),
             AnnotationResult.confidence = None, error = Some (exn_str e)\<rparr>)"
proof (cases "dispatch ext self img w")
  case (Pair res w')
  show ?thesis
  proof (cases res)
    case (Inl e)
    with Pair show ?thesis
      by (simp add: annotate_image_def model_type_value_nonempty)
  next
    case (Inr r)
    with Pair dispatch_success_shape[of ext self img w r w'] show ?thesis
      by (simp add: annotate_image_def)
  qed
qed

text \<open>
  At a RunPod service whose backend call times out: the result has empty text,
  provenance \<open>"runpod"\<close> and the timeout message as error.
\<close>

theorem annotate_image_never_raises_witness:
  "\<exists>r w'. annotate_image backend_timeout
       \<lparr>options = \<lparr>model_type = RUNPOD, runpod_config = Some example_runpod_config,
                   openai_config = None\<rparr>\<rparr> example_image example_world = (Inr r, w') \<and>
     AnnotationResult.text' r = [] \<and> provenance r = str ''runpod'' \<and>
     error r = Some (str ''Request timed out.'')"
proof -
  let ?self = "\<lparr>options = \<lparr>model_type = RUNPOD, runpod_config = Some example_runpod_config,
                   openai_config = None\<rparr>\<rparr>"
  have d: "fst (dispatch backend_timeout ?self example_image example_world) =
      Inl (RuntimeError (str ''Request timed out.''))"
    by (simp add: dispatch_def annotate_with_runpod_def backend_timeout_def Let_def)
  from annotate_image_never_raises[of backend_timeout ?self example_image example_world]
  obtain r w' where
    r: "annotate_image backend_timeout ?self example_image example_world = (Inr r, w')"
    and e: "\<forall>e. fst (dispatch backend_timeout ?self example_image example_world) = Inl e \<longrightarrow>
        r = \<lparr>AnnotationResult.text' = [],
             provenance = model_type_value (model_type (options ?self)),
             AnnotationResult.confidence = None, error = Some (exn_str e)\<rparr>"
    by blast
  from e d have "r = \<lparr>AnnotationResult.text' = [], provenance = str ''runpod'',
      AnnotationResult.confidence = None, error = Some (str ''Request timed out.'')\<rparr>"
    by simp
  with r show ?thesis by simp
qed

subsection \<open>Configuration from the environment\<close>

text \<open>
  Claim C4. Constructing the service on options of type RunPod without a RunPod
  configuration reads \<open>RUNPOD_API_KEY\<close>, \<open>RUNPOD_WORKER\<close> and \<open>RUNPOD_MODEL\<close> (default
  \<open>Qwen/Qwen2.5-VL-3B-Instruct\<close>) from the environment. If the key or the worker is unset
  (or empty) the constructor raises the \<open>ValueError\<close> whose message names both
  variables; otherwise the configuration is built from them. The same holds for OpenAI
  with \<open>OPENAI_API_KEY\<close>, the model being the default \<open>gpt-4-vision-preview\<close>. The
  constructor sends nothing to a backend: the world, and with it the list of backend
  calls, is as before. The service is given an options object; the validator of
  \<open>PictureAnnotationOptions\<close> itself, run when such an object is constructed from its
  fields, already rejects the selected type without its configuration, whatever the
  environment holds (the last two conjuncts).
\<close>

theorem init_resolves_from_environment:
  "(model_type opts = RUNPOD \<and> runpod_config opts = None \<longrightarrow>
      PictureAnnotationService_init (Some opts) w =
        (if truthy (environ w (str ''RUNPOD_API_KEY'')) \<and> truthy (environ w (str ''RUNPOD_WORKER''))
         then (Inr \<lparr>options = opts\<lparr>runpod_config := Some
                  (RunPodAnnotationConfig_new
                     (the (environ w (str ''RUNPOD_API_KEY'')))
                     (the (environ w (str ''RUNPOD_WORKER'')))
                     (case environ w (str ''RUNPOD_MODEL'') of
                        None \<Rightarrow> str ''Qwen/Qwen2.5-VL-3B-Instruct'' | Some m \<Rightarrow> m))\<rparr>\<rparr>, w)
         else (Inl (ValueError runpod_missing_message), w))) \<and>
   (model_type opts = RUNPOD \<and> runpod_config opts = None \<and>
      (environ w (str ''RUNPOD_API_KEY'') = None \<or> environ w (str ''RUNPOD_WORKER'') = None) \<longrightarrow>
      PictureAnnotationService_init (Some opts) w = (Inl (ValueError runpod_missing_message), w)) \<and>
   (model_type opts = OPENAI \<and> openai_config opts = None \<longrightarrow>
      PictureAnnotationService_init (Some opts) w =
        (if truthy (environ w (str ''OPENAI_API_KEY''))
         then (Inr \<lparr>options = opts\<lparr>openai_config := Some
                  (OpenAIAnnotationConfig_new (the (environ w (str ''OPENAI_API_KEY''))))\<rparr>\<rparr>, w)
         else (Inl (ValueError openai_missing_message), w))) \<and>
   (model_type opts = OPENAI \<and> openai_config opts = None \<and>
      environ w (str ''OPENAI_API_KEY'') = None \<longrightarrow>
      PictureAnnotationService_init (Some opts) w = (Inl (ValueError openai_missing_message), w)) \<and>
   OpenAIAnnotationConfig.model (OpenAIAnnotationConfig_new k) = str ''gpt-4-vision-preview'' \<and>
   sublist (str ''RUNPOD_API_KEY'') runpod_missing_message \<and>
   sublist (str ''RUNPOD_WORKER'') runpod_missing_message \<and>
   sublist (str ''OPENAI_API_KEY'') openai_missing_message \<and>
   backend_calls (snd (PictureAnnotationService_init given w)) = backend_calls w \<and>
   (\<exists>m. PictureAnnotationOptions_new RUNPOD None oc = Inl (ValueError m)) \<and>
   (\<exists>m. PictureAnnotationOptions_new OPENAI rc None = Inl (ValueError m))"
proof -
  have a: "model_type opts = RUNPOD \<and> runpod_config opts = None \<and>
      (environ w (str ''RUNPOD_API_KEY'') = None \<or> environ w (str ''RUNPOD_WORKER'') = None) \<longrightarrow>
      PictureAnnotationService_init (Some opts) w = (Inl (ValueError runpod_missing_message), w)"
    by (auto simp: init_runpod_from_environment)
  have b: "model_type opts = OPENAI \<and> openai_config opts = None \<and>
      environ w (str ''OPENAI_API_KEY'') = None \<longrightarrow>
      PictureAnnotationService_init (Some opts) w = (Inl (ValueError openai_missing_message), w)"
    by (auto simp: init_openai_from_environment)
  have c: "OpenAIAnnotationConfig.model (OpenAIAnnotationConfig_new k) = str ''gpt-4-vision-preview''"
    by (simp add: OpenAIAnnotationConfig_new_def)
  have d: "\<exists>m. PictureAnnotationOptions_new RUNPOD None oc = Inl (ValueError m)"
    "\<exists>m. PictureAnnotationOptions_new OPENAI rc None = Inl (ValueError m)"
    by (simp_all add: PictureAnnotationOptions_new_def validate_model_config_def)
  show ?thesis
    using a b c d init_runpod_from_environment[of opts w] init_openai_from_environment[of opts w]
      missing_messages_name_variables init_keeps_world[of given w]
    by simp
qed

text \<open>
  With only the API key set, a RunPod service is not constructed and no backend call has
  been made; with \<open>OPENAI_API_KEY\<close> set, an OpenAI service gets its configuration.
\<close>

theorem init_resolves_from_environment_witness:
  "PictureAnnotationService_init
      (Some \<lparr>model_type = RUNPOD, runpod_config = None, openai_config = None\<rparr>)
      \<lparr>environ = [str ''RUNPOD_API_KEY'' \<mapsto> str ''rp-key''], backend_calls = []\<rparr> =
     (Inl (ValueError runpod_missing_message),
      \<lparr>environ = [str ''RUNPOD_API_KEY'' \<mapsto> str ''rp-key''], backend_calls = []\<rparr>) \<and>
   PictureAnnotationService_init
      (Some \<lparr>model_type = OPENAI, runpod_config = None, openai_config = None\<rparr>)
      \<lparr>environ = [str ''OPENAI_API_KEY'' \<mapsto> str ''sk-key''], backend_calls = []\<rparr> =
     (Inr \<lparr>options = \<lparr>model_type = OPENAI, runpod_config = None,
                       openai_config = Some example_openai_config\<rparr>\<rparr>,
      \<lparr>environ = [str ''OPENAI_API_KEY'' \<mapsto> str ''sk-key''], backend_calls = []\<rparr>)"
  using init_resolves_from_environment
          [of "\<lparr>model_type = RUNPOD, runpod_config = None, openai_config = None\<rparr>"
              "\<lparr>environ = [str ''RUNPOD_API_KEY'' \<mapsto> str ''rp-key''], backend_calls = []\<rparr>"]
        init_resolves_from_environment
          [of "\<lparr>model_type = OPENAI, runpod_config = None, openai_config = None\<rparr>"
              "\<lparr>environ = [str ''OPENAI_API_KEY'' \<mapsto> str ''sk-key''], backend_calls = []\<rparr>"]
  by (simp add: str_def example_openai_config_def)

subsection \<open>Which provider configurations reach dispatch\<close>

text \<open>
  Claim C5, as stated, fails: nothing rejects an options object that carries both a
  RunPod and an OpenAI configuration. Such an object passes the validator of
  \<open>PictureAnnotationOptions\<close> and the constructor of the service, and is dispatched (here
  to RunPod, the selected type).
\<close>

theorem two_provider_configs_reach_dispatch:
  "PictureAnnotationOptions_new RUNPOD (Some example_runpod_config) (Some example_openai_config) =
     Inr \<lparr>model_type = RUNPOD, runpod_config = Some example_runpod_config,
          openai_config = Some example_openai_config\<rparr> \<and>
   PictureAnnotationService_init
     (Some \<lparr>model_type = RUNPOD, runpod_config = Some example_runpod_config,
            openai_config = Some example_openai_config\<rparr>) example_world =
     (Inr \<lparr>options = \<lparr>model_type = RUNPOD, runpod_config = Some example_runpod_config,
                       openai_config = Some example_openai_config\<rparr>\<rparr>, example_world) \<and>
   fst (dispatch backend_red_car
     \<lparr>options = \<lparr>model_type = RUNPOD, runpod_config = Some example_runpod_config,
                 openai_config = Some example_openai_config\<rparr>\<rparr> example_image example_world) =
     Inr \<lparr>AnnotationResult.text' = str ''a red car'',
          provenance = str ''runpod:Qwen/Qwen2.5-VL-3B-Instruct'',
          AnnotationResult.confidence = None, error = None\<rparr>"
  by (simp add: PictureAnnotationOptions_new_def validate_model_config_def
      PictureAnnotationService_init_def validate_configuration_def
      dispatch_def annotate_with_runpod_def backend_red_car_def Let_def
      first_choice_result_def py_or_def example_runpod_config_def
      RunPodAnnotationConfig_new_def str_def)

text \<open>
  Claim C5, amended. What validation and resolution do establish: the configuration of
  the selected type is present (for RunPod \<open>runpod_config\<close>, for OpenAI \<open>openai_config\<close>),
  both after the validator of the options and after the constructor of the service,
  which keeps the type; and dispatch reads that configuration only, so a configuration
  of another type, which may be present too, has no effect. A request with both
  \<open>picture_description_local\<close> and \<open>picture_description_api\<close> set is rejected by the
  validator of \<open>ConvertDocumentsOptions\<close>, whatever \<open>picture_annotation\<close> holds.
\<close>

theorem selected_provider_config_present:
  "(PictureAnnotationOptions_new mt rc oc = Inr validated \<longrightarrow>
      model_type validated = mt \<and>
      (mt = RUNPOD \<longrightarrow> runpod_config validated \<noteq> None) \<and>
      (mt = OPENAI \<longrightarrow> openai_config validated \<noteq> None)) \<and>
   (PictureAnnotationService_init (Some given) w = (Inr svc, w') \<longrightarrow>
      model_type (options svc) = model_type given \<and>
      (model_type given = RUNPOD \<longrightarrow> runpod_config (options svc) \<noteq> None) \<and>
      (model_type given = OPENAI \<longrightarrow> openai_config (options svc) \<noteq> None)) \<and>
   (model_type opts \<noteq> OPENAI \<longrightarrow>
      dispatch ext \<lparr>options = opts\<lparr>openai_config := x\<rparr>\<rparr> img w =
      dispatch ext \<lparr>options = opts\<rparr> img w) \<and>
   (model_type opts \<noteq> RUNPOD \<longrightarrow>
      dispatch ext \<lparr>options = opts\<lparr>runpod_config := y\<rparr>\<rparr> img w =
      dispatch ext \<lparr>options = opts\<rparr> img w) \<and>
   (picture_description_local request \<noteq> None \<and> picture_description_api request \<noteq> None \<longrightarrow>
      (\<exists>m. picture_description_exclusivity request = Inl (ValueError m)))"
proof -
  have a: "PictureAnnotationOptions_new mt rc oc = Inr validated \<longrightarrow>
      model_type validated = mt \<and>
      (mt = RUNPOD \<longrightarrow> runpod_config validated \<noteq> None) \<and>
      (mt = OPENAI \<longrightarrow> openai_config validated \<noteq> None)"
    by (auto simp: PictureAnnotationOptions_new_def validate_model_config_def split: if_splits)
  have b: "picture_description_local request \<noteq> None \<and> picture_description_api request \<noteq> None \<longrightarrow>
      (\<exists>m. picture_description_exclusivity request = Inl (ValueError m))"
    by (simp add: picture_description_exclusivity_def)
  show ?thesis
    using a b init_selected_config_present[of given w svc w']
      dispatch_ignores_openai_config[where opts = opts and ext = ext and x = x and img = img and w = w]
      dispatch_ignores_runpod_config[where opts = opts and ext = ext and y = y and img = img and w = w]
    by blast
qed

text \<open>
  At an OpenAI service from the environment, and at a request that sets both picture
  descriptions together with a Local annotation.
\<close>

theorem selected_provider_config_present_witness:
  "(\<exists>svc w'. PictureAnnotationService_init
       (Some \<lparr>model_type = OPENAI, runpod_config = None, openai_config = None\<rparr>)
       \<lparr>environ = [str ''OPENAI_API_KEY'' \<mapsto> str ''sk-key''], backend_calls = []\<rparr> = (Inr svc, w') \<and>
       model_type (options svc) = OPENAI \<and> openai_config (options svc) \<noteq> None) \<and>
   (\<exists>m. picture_description_exclusivity
       \<lparr>do_document_enhancement = False, enable_character_encoding_fix = False,
        picture_description_local = Some (str ''HuggingFaceTB/SmolVLM-256M-Instruct''),
        picture_description_api = Some (str ''http://localhost:8000/v1/chat/completions''),
        picture_annotation = Some \<lparr>model_type = LOCAL, runpod_config = None, openai_config = None\<rparr>\<rparr> =
       Inl (ValueError m))"
proof -
  let ?given = "\<lparr>model_type = OPENAI, runpod_config = None, openai_config = None\<rparr>"
  let ?w = "\<lparr>environ = [str ''OPENAI_API_KEY'' \<mapsto> str ''sk-key''], backend_calls = []\<rparr>"
  let ?svc = "\<lparr>options = ?given\<lparr>openai_config := Some (OpenAIAnnotationConfig_new (str ''sk-key''))\<rparr>\<rparr>"
  let ?request = "\<lparr>do_document_enhancement = False, enable_character_encoding_fix = False,
        picture_description_local = Some (str ''HuggingFaceTB/SmolVLM-256M-Instruct''),
        picture_description_api = Some (str ''http://localhost:8000/v1/chat/completions''),
        picture_annotation = Some \<lparr>model_type = LOCAL, runpod_config = None, openai_config = None\<rparr>\<rparr>"
  have i: "PictureAnnotationService_init (Some ?given) ?w = (Inr ?svc, ?w)"
    by (simp add: PictureAnnotationService_init_def validate_configuration_def Let_def
        getenv_def str_def)
  from selected_provider_config_present
         [where given = ?given and w = ?w and svc = ?svc and w' = ?w and request = ?request] i
  show ?thesis by simp
qed

subsection \<open>A successful backend call\<close>

text \<open>
  Claim C9. When the encoding and the backend call succeed and the response has a
  choice, the result carries the content of the first choice (the empty string when it
  is \<open>None\<close>), the provenance \<open>openai:<model>\<close> or \<open>runpod:<model>\<close>, no confidence and no
  error, and exactly one request has been sent. The RunPod request goes to
  \<open>https://api.runpod.ai/v2/<worker_id>/openai/v1\<close>, the OpenAI request to the client's
  default endpoint; the image block has detail \<open>low\<close> for RunPod and \<open>high\<close> for OpenAI.
\<close>

theorem successful_call_first_choice:
  "(model_type (options self) = OPENAI \<and> openai_config (options self) = Some oc \<and>
    save_png ext img = Inr png \<and>
    chat_completions_create ext (openai_request oc (b64encode ext png)) = Inr response \<and>
    choices response = c # cs \<longrightarrow>
      annotate_image ext self img w =
        (Inr \<lparr>AnnotationResult.text' = (case c of None \<Rightarrow> [] | Some t \<Rightarrow> t),
              provenance = str ''openai:'' @ OpenAIAnnotationConfig.model oc,
              AnnotationResult.confidence = None, error = None\<rparr>,
         w\<lparr>backend_calls := backend_calls w @ [openai_request oc (b64encode ext png)]\<rparr>)) \<and>
   (model_type (options self) = RUNPOD \<and> runpod_config (options self) = Some rc \<and>
    save_png ext img = Inr png \<and>
    chat_completions_create ext (runpod_request rc (b64encode ext png)) = Inr response \<and>
    choices response = c # cs \<longrightarrow>
      annotate_image ext self img w =
        (Inr \<lparr>AnnotationResult.text' = (case c of None \<Rightarrow> [] | Some t \<Rightarrow> t),
              provenance = str ''runpod:'' @ RunPodAnnotationConfig.model rc,
              AnnotationResult.confidence = None, error = None\<rparr>,
         w\<lparr>backend_calls := backend_calls w @ [runpod_request rc (b64encode ext png)]\<rparr>)) \<and>
   req_base_url (runpod_request rc s) =
     Some (str ''https://api.runpod.ai/v2/'' @ worker_id rc @ str ''/openai/v1'') \<and>
   req_base_url (openai_request oc s) = None \<and>
   req_messages (runpod_request rc s) =
     [\<lparr>role = str ''user'',
       content = [Image_url (str ''data:image/png;base64,'' @ s) (str ''low''),
                  Text_block (RunPodAnnotationConfig.prompt rc)]\<rparr>] \<and>
   req_messages (openai_request oc s) =
     [\<lparr>role = str ''user'',
       content = [Image_url (str ''data:image/png;base64,'' @ s) (str ''high''),
                  Text_block (OpenAIAnnotationConfig.prompt oc)]\<rparr>]"
  using annotate_openai_success[of self oc ext img png response c cs w]
    annotate_runpod_success[of self rc ext img png response c cs w]
    request_shape(1)[of rc s] request_shape(2)[of oc s]
    request_shape(3)[of rc s] request_shape(4)[of oc s]
  by blast

text \<open>
  At an OpenAI service whose backend answers \<open>"a red car"\<close>: the result is that text
  with provenance \<open>openai:gpt-4-vision-preview\<close>, and one request was sent.
\<close>

theorem successful_call_first_choice_witness:
  "\<exists>w'. annotate_image backend_red_car
     \<lparr>options = \<lparr>model_type = OPENAI, runpod_config = None,
                 openai_config = Some example_openai_config\<rparr>\<rparr> example_image example_world =
     (Inr \<lparr>AnnotationResult.text' = str ''a red car'',
           provenance = str ''openai:gpt-4-vision-preview'',
           AnnotationResult.confidence = None, error = None\<rparr>, w') \<and>
     length (backend_calls w') = 1"
proof -
  let ?self = "\<lparr>options = \<lparr>model_type = OPENAI, runpod_config = None,
                 openai_config = Some example_openai_config\<rparr>\<rparr>"
  have "annotate_image backend_red_car ?self example_image example_world =
     (Inr \<lparr>AnnotationResult.text' = (case Some (str ''a red car'') of None \<Rightarrow> [] | Some t \<Rightarrow> t),
           provenance = str ''openai:'' @ OpenAIAnnotationConfig.model example_openai_config,
           AnnotationResult.confidence = None, error = None\<rparr>,
      example_world\<lparr>backend_calls := backend_calls example_world @
         [openai_request example_openai_config (b64encode backend_red_car [137, 80, 78, 71])]\<rparr>)"
    using successful_call_first_choice
            [where self = ?self and oc = example_openai_config and ext = backend_red_car
               and img = example_image and png = "[137, 80, 78, 71]"
               and response = "\<lparr>choices = [Some (str ''a red car'')]\<rparr>"
               and c = "Some (str ''a red car'')" and cs = "[]" and w = example_world]
    by (simp add: backend_red_car_def)
  then show ?thesis
    by (simp add: example_openai_config_def OpenAIAnnotationConfig_new_def str_def
        example_world_def)
qed

subsection \<open>The default service\<close>

text \<open>
  Claim C10. Constructing the service without options succeeds, whatever the
  environment: the options are the defaults, of type Local. Every \<open>annotate_image\<close> on
  that service, for every image, backend and world, returns the placeholder result and
  leaves the world as it is.
\<close>

theorem default_service_placeholder:
  "PictureAnnotationService_init None w =
     (Inr \<lparr>options = \<lparr>model_type = LOCAL, runpod_config = None, openai_config = None\<rparr>\<rparr>, w) \<and>
   annotate_image ext \<lparr>options = \<lparr>model_type = LOCAL, runpod_config = None, openai_config = None\<rparr>\<rparr>
     img w' =
     (Inr \<lparr>AnnotationResult.text' = str ''Local model annotation placeholder'',
           provenance = str ''local_model'',
           AnnotationResult.confidence = None, error = None\<rparr>, w')"
  by (simp add: PictureAnnotationService_init_def default_options validate_configuration_def
      annotate_image_def dispatch_def annotate_with_local_model_def)

theorem default_service_placeholder_witness:
  "PictureAnnotationService_init None example_world =
     (Inr \<lparr>options = \<lparr>model_type = LOCAL, runpod_config = None, openai_config = None\<rparr>\<rparr>,
      example_world) \<and>
   annotate_image backend_timeout
     \<lparr>options = \<lparr>model_type = LOCAL, runpod_config = None, openai_config = None\<rparr>\<rparr>
     example_image example_world =
     (Inr \<lparr>AnnotationResult.text' = str ''Local model annotation placeholder'',
           provenance = str ''local_model'',
           AnnotationResult.confidence = None, error = None\<rparr>, example_world)"
  by (rule default_service_placeholder)

section \<open>The OCR region enhancer\<close>

subsection \<open>Auxiliary facts\<close>

text \<open>The loop keeps, in order, the texts of the lines above the threshold.\<close>

lemma collect_lines_filter:
  "collect_lines acc ls =
     acc @ map TextLine.text' (filter (\<lambda>l. TextLine.confidence l > 1 / 2) ls)"
  by (induction ls arbitrary: acc) auto

lemma crop_box_formula:
  "crop_box img (x1, y1, x2, y2) =
     (max (x1 - 2) 0, max (y1 - 2) 0, min (x2 + 2) (width img), min (y2 + 2) (height img))"
  by (simp add: crop_box_def Let_def)

lemma canvas_size_formula: "canvas_size cropped = (3 * width cropped, 3 * height cropped)"
  by (simp add: canvas_size_def Let_def)

lemma paste_position_formula: "paste_position cropped = (width cropped, height cropped)"
  by (simp add: paste_position_def canvas_size_def Let_def)

lemma crop_size:
  "Image_crop img box = Inr cropped \<Longrightarrow>
     (case box of (l, u, r, lo) \<Rightarrow>
        l \<le> r \<and> u \<le> lo \<and> width cropped = r - l \<and> height cropped = lo - u)"
  by (auto simp: Image_crop_def split: prod.splits if_splits)

lemma crop_inverted_raises:
  "r < l \<or> lo < u \<Longrightarrow> \<exists>e. Image_crop img (l, u, r, lo) = Inl e"
  by (auto simp: Image_crop_def)

lemma background_of_crop:
  assumes "Image_crop img (crop_box img bb) = Inr cropped"
  shows "padded_background img bb =
     Inr \<lparr>width = 3 * width cropped, height = 3 * height cropped,
          pixel = (\<lambda>x y. if width cropped \<le> x \<and> x < 2 * width cropped \<and>
                              height cropped \<le> y \<and> y < 2 * height cropped
                           then pixel cropped (x - width cropped) (y - height cropped)
                           else (255, 255, 255))\<rparr>"
proof -
  from crop_size[OF assms] have "0 \<le> width cropped" "0 \<le> height cropped"
    by (auto split: prod.splits)
  then show ?thesis using assms
    by (simp add: padded_background_def canvas_size_formula paste_position_formula
        Image_new_def Image_paste_def cong: if_cong)
qed

lemma merge_lines_first:
  "merge_lines (first # others) =
     strip (join (str '' '')
       (map TextLine.text' (filter (\<lambda>l. TextLine.confidence l > 1 / 2) (text_lines first))))"
  by (simp add: merge_lines_def collect_lines_filter)

lemma filter_low_confidence:
  "\<forall>l \<in> set ls. TextLine.confidence l \<le> 1 / 2 \<Longrightarrow>
     filter (\<lambda>l. TextLine.confidence l > 1 / 2) ls = []"
  by (induction ls) auto

lemma strip_Hello: "strip (str ''Hello'') = str ''Hello''"
  by (simp add: strip_def str_def isspace_def)

subsection \<open>The confidence filter\<close>

text \<open>
  Claim C2. When the recognizer answers, the enhanced text is made of exactly the lines
  of the first prediction whose confidence is above 0.5, in order, joined by one space
  and stripped; it is returned unless it is empty. So when every line has confidence at
  most 0.5 the result is \<open>old_text\<close>, and for the two lines \<open>"Hello"\<close> at 0.9 and
  \<open>"xx"\<close> at 0.3 it is \<open>"Hello"\<close>.
\<close>

theorem extract_text_keeps_confident_lines:
  assumes "models_loaded self" and "recognition_predictor self = Some predictor"
    and "padded_background img bb = Inr background"
    and "predictor [background] True [str ''ocr_with_boxes''] = Inr (first # others)"
  shows "extract_text_from_region self img bb old_text =
      Inr (let kept = filter (\<lambda>l. TextLine.confidence l > 1 / 2) (text_lines first);
               enhanced = strip (join (str '' '') (map TextLine.text' kept))
           in if enhanced = [] then old_text else enhanced) \<and>
    ((\<forall>l \<in> set (text_lines first). TextLine.confidence l \<le> 1 / 2) \<longrightarrow>
       extract_text_from_region self img bb old_text = Inr old_text) \<and>
    (text_lines first =
       [\<lparr>TextLine.text' = str ''Hello'', TextLine.confidence = 9 / 10\<rparr>,
        \<lparr>TextLine.text' = str ''xx'', TextLine.confidence = 3 / 10\<rparr>] \<longrightarrow>
       extract_text_from_region self img bb old_text = Inr (str ''Hello''))"
proof -
  have general: "extract_text_from_region self img bb old_text =
      Inr (let kept = filter (\<lambda>l. TextLine.confidence l > 1 / 2) (text_lines first);
               enhanced = strip (join (str '' '') (map TextLine.text' kept))
           in if enhanced = [] then old_text else enhanced)"
    using assms
    by (simp add: extract_text_from_region_def extract_try_def merge_lines_first Let_def)
  have low: "extract_text_from_region self img bb old_text = Inr old_text"
    if "\<forall>l \<in> set (text_lines first). TextLine.confidence l \<le> 1 / 2"
    using general filter_low_confidence[OF that] by (simp add: strip_def)
  have hello: "extract_text_from_region self img bb old_text = Inr (str ''Hello'')"
    if "text_lines first =
       [\<lparr>TextLine.text' = str ''Hello'', TextLine.confidence = 9 / 10\<rparr>,
        \<lparr>TextLine.text' = str ''xx'', TextLine.confidence = 3 / 10\<rparr>]"
  proof -
    have "str ''Hello'' \<noteq> []" by (simp add: str_def)
    then show ?thesis using general that by (simp add: strip_Hello)
  qed
  from general low hello show ?thesis by blast
qed

text \<open>
  The region (10, 10, 50, 40) of the 100 by 100 image, read as \<open>"Hello"\<close> (0.9) and
  \<open>"xx"\<close> (0.3): the result is \<open>"Hello"\<close>.
\<close>

theorem extract_text_keeps_confident_lines_witness:
  "extract_text_from_region example_enhancer example_image (10, 10, 50, 40) (str ''He1lo'') =
     Inr (str ''Hello'')"
proof -
  obtain background where
    bg: "padded_background example_image (10, 10, 50, 40) = Inr background"
    by (simp add: padded_background_def crop_box_def canvas_size_def Image_crop_def
        Image_new_def example_image_def Let_def)
  have loaded: "models_loaded example_enhancer"
    and rp: "recognition_predictor example_enhancer = Some example_recognizer"
    by (simp_all add: example_enhancer_def)
  have answer: "example_recognizer [background] True [str ''ocr_with_boxes''] =
      Inr (\<lparr>text_lines =
              [\<lparr>TextLine.text' = str ''Hello'', TextLine.confidence = 9 / 10\<rparr>,
               \<lparr>TextLine.text' = str ''xx'', TextLine.confidence = 3 / 10\<rparr>]\<rparr> # [])"
    by (simp add: example_recognizer_def)
  let ?first = "\<lparr>text_lines =
              [\<lparr>TextLine.text' = str ''Hello'', TextLine.confidence = 9 / 10\<rparr>,
               \<lparr>TextLine.text' = str ''xx'', TextLine.confidence = 3 / 10\<rparr>]\<rparr>"
  from extract_text_keeps_confident_lines
      [where self = example_enhancer and predictor = example_recognizer
         and img = example_image and bb = "(10, 10, 50, 40)" and background = background
         and first = ?first and others = "[]" and old_text = "str ''He1lo''",
       OF loaded rp bg answer]
  have "text_lines ?first =
       [\<lparr>TextLine.text' = str ''Hello'', TextLine.confidence = 9 / 10\<rparr>,
        \<lparr>TextLine.text' = str ''xx'', TextLine.confidence = 3 / 10\<rparr>] \<longrightarrow>
     extract_text_from_region example_enhancer example_image (10, 10, 50, 40) (str ''He1lo'') =
       Inr (str ''Hello'')"
    by blast
  then show ?thesis by simp
qed

subsection \<open>The enhancer never raises\<close>

text \<open>
  Claim C3. For every enhancer, image, region and \<open>old_text\<close>, \<open>extract_text_from_region\<close>
  returns a string and no exception leaves it. It returns \<open>old_text\<close> when the models
  are not loaded, when anything in the \<open>try\<close> body raises (in particular when the
  clamped rectangle is inverted, as for a region outside the image, which makes
  \<open>crop\<close> raise), and when the merge of the confident lines is empty. So it returns the
  empty string only if \<open>old_text\<close> is empty.
\<close>

theorem extract_text_never_raises:
  "\<exists>s. extract_text_from_region self img bb old_text = Inr s \<and>
     (s = [] \<longrightarrow> old_text = []) \<and>
     (\<not> models_loaded self \<longrightarrow> s = old_text) \<and>
     ((\<exists>e. extract_try self img bb old_text = Inl e) \<longrightarrow> s = old_text) \<and>
     ((\<exists>l u r lo. crop_box img bb = (l, u, r, lo) \<and> (r < l \<or> lo < u)) \<longrightarrow> s = old_text) \<and>
     ((\<exists>predictor background predictions.
          recognition_predictor self = Some predictor \<and>
          padded_background img bb = Inr background \<and>
          predictor [background] True [str ''ocr_with_boxes''] = Inr predictions \<and>
          merge_lines predictions = []) \<longrightarrow> s = old_text)"
proof (cases "models_loaded self")
  case False
  then show ?thesis by (simp add: extract_text_from_region_def)
next
  case True
  show ?thesis
  proof (cases "extract_try self img bb old_text")
    case (Inl e)
    with True show ?thesis by (simp add: extract_text_from_region_def)
  next
    case (Inr s)
    have no_inv: False if "crop_box img bb = (l, u, r, lo)" "r < l \<or> lo < u" for l u r lo
    proof -
      from crop_inverted_raises[OF that(2), of img] that(1)
      obtain e where "Image_crop img (crop_box img bb) = Inl e" by auto
      then have "extract_try self img bb old_text = Inl e"
        by (simp add: extract_try_def padded_background_def)
      with Inr show False by simp
    qed
    from Inr have nonempty: "s = [] \<longrightarrow> old_text = []"
      by (auto simp: extract_try_def Let_def split: sum.splits option.splits if_splits)
    have merge: "s = old_text"
      if "recognition_predictor self = Some predictor"
        "padded_background img bb = Inr background"
        "predictor [background] True [str ''ocr_with_boxes''] = Inr predictions"
        "merge_lines predictions = []" for predictor background predictions
      using Inr that by (simp add: extract_try_def Let_def)
    have "extract_text_from_region self img bb old_text = Inr s"
      using True Inr by (simp add: extract_text_from_region_def)
    moreover have "\<not> (\<exists>e. extract_try self img bb old_text = Inl e)"
      using Inr by simp
    moreover have "\<not> (\<exists>l u r lo. crop_box img bb = (l, u, r, lo) \<and> (r < l \<or> lo < u))"
      using no_inv by blast
    moreover have "(\<exists>predictor background predictions.
          recognition_predictor self = Some predictor \<and>
          padded_background img bb = Inr background \<and>
          predictor [background] True [str ''ocr_with_boxes''] = Inr predictions \<and>
          merge_lines predictions = []) \<longrightarrow> s = old_text"
      using merge by blast
    ultimately show ?thesis using True nonempty by blast
  qed
qed

text \<open>A region outside the 100 by 100 image: \<open>old_text\<close> comes back.\<close>

theorem extract_text_never_raises_witness:
  "extract_text_from_region example_enhancer example_image (200, 200, 250, 250) (str ''old'') =
     Inr (str ''old'')"
proof -
  have box: "crop_box example_image (200, 200, 250, 250) = (198, 198, 100, 100)"
    by (simp add: crop_box_def example_image_def Let_def)
  from extract_text_never_raises
         [of example_enhancer example_image "(200, 200, 250, 250)" "str ''old''"]
  obtain s where
    s: "extract_text_from_region example_enhancer example_image (200, 200, 250, 250) (str ''old'') = Inr s"
    and inv: "(\<exists>l u r lo. crop_box example_image (200, 200, 250, 250) = (l, u, r, lo) \<and>
                (r < l \<or> lo < u)) \<longrightarrow> s = str ''old''"
    by blast
  from inv box have "s = str ''old''" by simp
  with s show ?thesis by simp
qed

subsection \<open>Crop and canvas\<close>

text \<open>
  Claim C8. The crop rectangle is the region widened by 2 pixels and clamped:
  \<open>left = max(x1 - 2, 0)\<close>, \<open>top = max(y1 - 2, 0)\<close>, \<open>right = min(x2 + 2, width)\<close>,
  \<open>bottom = min(y2 + 2, height)\<close>. The canvas is 3 times the crop in width and in
  height, and the crop is pasted at \<open>((bg_w - w) // 2, (bg_h - h) // 2)\<close>, which is
  \<open>(w, h)\<close>. When the crop succeeds, the image handed to the recognizer has that size, is
  white outside the pasted rectangle and shows the crop inside it. These are functions
  of the image and the region, so equal inputs give equal crops and canvases.
\<close>

theorem crop_and_canvas_geometry:
  "crop_box img (x1, y1, x2, y2) =
     (max (x1 - 2) 0, max (y1 - 2) 0, min (x2 + 2) (width img), min (y2 + 2) (height img)) \<and>
   canvas_size cropped = (3 * width cropped, 3 * height cropped) \<and>
   paste_position cropped =
     ((fst (canvas_size cropped) - width cropped) div 2,
      (snd (canvas_size cropped) - height cropped) div 2) \<and>
   paste_position cropped = (width cropped, height cropped) \<and>
   (Image_crop img (crop_box img bb) = Inr cropped \<longrightarrow>
      padded_background img bb =
        Inr \<lparr>width = 3 * width cropped, height = 3 * height cropped,
             pixel = (\<lambda>x y. if width cropped \<le> x \<and> x < 2 * width cropped \<and>
                                 height cropped \<le> y \<and> y < 2 * height cropped
                              then pixel cropped (x - width cropped) (y - height cropped)
                              else (255, 255, 255))\<rparr>)"
  using crop_box_formula[of img x1 y1 x2 y2] canvas_size_formula[of cropped]
    paste_position_formula[of cropped] background_of_crop[of img bb cropped]
  by simp

text \<open>
  The region (10, 10, 50, 40) of the 100 by 100 image: the crop is (8, 8, 52, 42), 44 by
  34 pixels; the canvas is 132 by 102, white at its corner, and shows the (black) crop
  from (44, 34) on.
\<close>

theorem crop_and_canvas_geometry_witness:
  "crop_box example_image (10, 10, 50, 40) = (8, 8, 52, 42) \<and>
   (\<exists>background. padded_background example_image (10, 10, 50, 40) = Inr background \<and>
      width background = 132 \<and> height background = 102 \<and>
      pixel background 0 0 = (255, 255, 255) \<and> pixel background 44 34 = (0, 0, 0))"
proof -
  let ?cropped = "\<lparr>width = 44, height = 34,
      pixel = (\<lambda>x y. if 0 \<le> x + 8 \<and> x + 8 < width example_image \<and>
                          0 \<le> y + 8 \<and> y + 8 < height example_image
                       then pixel example_image (x + 8) (y + 8) else (0, 0, 0))\<rparr>"
  have box: "crop_box example_image (10, 10, 50, 40) = (8, 8, 52, 42)"
    by (simp add: crop_box_def example_image_def Let_def)
  have crop: "Image_crop example_image (crop_box example_image (10, 10, 50, 40)) = Inr ?cropped"
    by (simp add: box Image_crop_def)
  from crop_and_canvas_geometry[of example_image 10 10 50 40 ?cropped "(10, 10, 50, 40)"] crop
  have "padded_background example_image (10, 10, 50, 40) =
        Inr \<lparr>width = 3 * width ?cropped, height = 3 * height ?cropped,
             pixel = (\<lambda>x y. if width ?cropped \<le> x \<and> x < 2 * width ?cropped \<and>
                                 height ?cropped \<le> y \<and> y < 2 * height ?cropped
                              then pixel ?cropped (x - width ?cropped) (y - height ?cropped)
                              else (255, 255, 255))\<rparr>"
    by blast
  with box show ?thesis by (simp add: example_image_def)
qed

section \<open>The table structure enhancer\<close>

subsection \<open>Auxiliary facts\<close>

lemma update_cells_length:
  "update_cells upd d tb pd w h cs = (r, cs') \<Longrightarrow> length cs' = length cs"
  by (induction cs arbitrary: r cs') (auto split: option.splits prod.splits sum.splits)

text \<open>A cell whose key is not in the dictionary is passed over.\<close>

lemma update_cells_unmatched:
  "update_cells upd d tb pd w h cs = (r, cs') \<Longrightarrow> i < length cs \<Longrightarrow>
   d (start_row_offset_idx (cs ! i), start_col_offset_idx (cs ! i)) = None \<Longrightarrow>
   cs' ! i = cs ! i"
proof (induction cs arbitrary: r cs' i)
  case Nil
  then show ?case by simp
next
  case (Cons c cs)
  then show ?case
    by (cases i) (auto split: option.splits prod.splits sum.splits)
qed

text \<open>If every call of the converter changes the box only, so does the loop.\<close>

lemma update_cells_bbox_only:
  assumes "\<And>c s. \<exists>b. snd (upd c s tb pd w h) = c\<lparr>bbox := b\<rparr>"
  shows "update_cells upd d tb pd w h cs = (r, cs') \<Longrightarrow> i < length cs \<Longrightarrow>
    \<exists>b. cs' ! i = (cs ! i)\<lparr>bbox := b\<rparr>"
proof (induction cs arbitrary: r cs' i)
  case Nil
  then show ?case by simp
next
  case (Cons c cs)
  have same: "\<exists>b. x = x\<lparr>bbox := b\<rparr>" for x :: TableCell
    by (rule exI[of _ "bbox x"]) simp
  show ?case
  proof (cases "d (start_row_offset_idx c, start_col_offset_idx c)")
    case None
    with Cons.prems obtain rest' where
      rest: "update_cells upd d tb pd w h cs = (r, rest')" and cs': "cs' = c # rest'"
      by (auto split: prod.splits)
    show ?thesis
    proof (cases i)
      case 0
      with cs' same show ?thesis by simp
    next
      case (Suc j)
      with Cons.IH[OF rest, of j] Cons.prems(2) cs' show ?thesis by simp
    qed
  next
    case (Some sc)
    from assms[of c sc] obtain b where b: "snd (upd c sc tb pd w h) = c\<lparr>bbox := b\<rparr>" ..
    show ?thesis
    proof (cases "fst (upd c sc tb pd w h)")
      case (Inl e)
      with Some Cons.prems(1) b have cs': "cs' = c\<lparr>bbox := b\<rparr> # cs"
        by (cases "upd c sc tb pd w h") auto
      show ?thesis
      proof (cases i)
        case 0
        with cs' show ?thesis by (intro exI[of _ b]) simp
      next
        case (Suc j)
        with cs' same show ?thesis by simp
      qed
    next
      case (Inr u)
      with Some Cons.prems(1) b obtain rest' where
        rest: "update_cells upd d tb pd w h cs = (r, rest')"
        and cs': "cs' = c\<lparr>bbox := b\<rparr> # rest'"
        by (cases "upd c sc tb pd w h") (auto split: prod.splits)
      show ?thesis
      proof (cases i)
        case 0
        with cs' show ?thesis by (intro exI[of _ b]) simp
      next
        case (Suc j)
        with Cons.IH[OF rest, of j] Cons.prems(2) cs' show ?thesis by simp
      qed
    qed
  qed
qed

text \<open>
  A loop that ends in an exception ended at a matched cell \<open>k\<close> whose conversion raised
  it: the cells after \<open>k\<close> are untouched, the cells before \<open>k\<close> are as their own
  conversion left them.
\<close>

lemma update_cells_failure:
  "update_cells upd d tb pd w h cs = (Inl e, cs') \<Longrightarrow>
   \<exists>k<length cs. \<exists>sc.
      d (start_row_offset_idx (cs ! k), start_col_offset_idx (cs ! k)) = Some sc \<and>
      fst (upd (cs ! k) sc tb pd w h) = Inl e \<and>
      drop (Suc k) cs' = drop (Suc k) cs \<and>
      (\<forall>i<k. cs' ! i =
         (case d (start_row_offset_idx (cs ! i), start_col_offset_idx (cs ! i)) of
            None \<Rightarrow> cs ! i
          | Some s \<Rightarrow> snd (upd (cs ! i) s tb pd w h)))"
proof (induction cs arbitrary: cs')
  case Nil
  then show ?case by simp
next
  case (Cons c cs)
  let ?key = "\<lambda>x. (start_row_offset_idx x, start_col_offset_idx x)"
  let ?conv = "\<lambda>x. case d (?key x) of None \<Rightarrow> x | Some s \<Rightarrow> snd (upd x s tb pd w h)"
  have step: ?case
    if rest: "update_cells upd d tb pd w h cs = (Inl e, rest')"
      and cs': "cs' = ?conv c # rest'" for rest'
  proof -
    from Cons.IH[OF rest] obtain k sc where k: "k < length cs"
      and m: "d (?key (cs ! k)) = Some sc"
      and f: "fst (upd (cs ! k) sc tb pd w h) = Inl e"
      and dr: "drop (Suc k) rest' = drop (Suc k) cs"
      and bf: "\<forall>i<k. rest' ! i = ?conv (cs ! i)"
      by blast
    have "\<forall>i<Suc k. cs' ! i = ?conv ((c # cs) ! i)"
    proof (intro allI impI)
      fix i assume "i < Suc k"
      then show "cs' ! i = ?conv ((c # cs) ! i)"
        using bf cs' by (cases i) (auto split: option.splits)
    qed
    with k m f dr cs' show ?thesis
      by (intro exI[of _ "Suc k"] conjI exI[of _ sc]) auto
  qed
  show ?case
  proof (cases "d (?key c)")
    case None
    with Cons.prems obtain rest' where
      "update_cells upd d tb pd w h cs = (Inl e, rest')" "cs' = c # rest'"
      by (auto split: prod.splits)
    with None step[of rest'] show ?thesis by simp
  next
    case (Some sc)
    show ?thesis
    proof (cases "upd c sc tb pd w h")
      case (Pair res c')
      show ?thesis
      proof (cases res)
        case (Inl e')
        with Some Pair Cons.prems have "e' = e" "cs' = c' # cs" by auto
        with Some Pair Inl show ?thesis
          by (intro exI[of _ 0] conjI exI[of _ sc]) auto
      next
        case (Inr u)
        with Some Pair Cons.prems obtain rest' where
          "update_cells upd d tb pd w h cs = (Inl e, rest')" "cs' = c' # rest'"
          by (auto split: prod.splits)
        with Some Pair step[of rest'] show ?thesis by simp
      qed
    qed
  qed
qed

lemma dict_fold_None:
  "foldl (\<lambda>d cell. d((row_id cell, col_id cell) \<mapsto> cell)) m cs k = None \<longleftrightarrow>
     m k = None \<and> (\<forall>c \<in> set cs. (row_id c, col_id c) \<noteq> k)"
  by (induction cs arbitrary: m) auto

text \<open>The dictionary has a key exactly when a cell of the model carries it.\<close>

lemma surya_cell_dict_None:
  "surya_cell_dict cs k = None \<longleftrightarrow> (\<forall>c \<in> set cs. (row_id c, col_id c) \<noteq> k)"
  by (simp add: surya_cell_dict_def dict_fold_None)

lemma enhance_never_raises:
  "fst (enhance_table_structure bbox_utils self ti pd cs tb w h) = Inr ()"
  by (simp add: enhance_table_structure_def split: prod.splits sum.splits)

text \<open>The ways through \<open>enhance_table_structure\<close>: either the cells are not touched, or
  the loop has run on the first prediction.\<close>

lemma enhance_cases:
  "snd (enhance_table_structure bbox_utils self ti pd cs tb w h) = cs \<or>
   (\<exists>upd predictor t ts. models_loaded self \<and> bbox_utils = Inr upd \<and>
      table_rec_predictor self = Some predictor \<and> predictor [ti] = Inr (t # ts) \<and>
      snd (enhance_table_structure bbox_utils self ti pd cs tb w h) =
        snd (update_cells upd (surya_cell_dict (cells t)) tb pd w h cs))"
proof (cases "models_loaded self")
  case False
  then show ?thesis by (simp add: enhance_table_structure_def)
next
  case True
  show ?thesis
  proof (cases bbox_utils)
    case (Inl e)
    with True show ?thesis by (simp add: enhance_table_structure_def enhance_try_def)
  next
    case upd: (Inr upd)
    show ?thesis
    proof (cases "table_rec_predictor self")
      case None
      with True upd show ?thesis by (simp add: enhance_table_structure_def enhance_try_def)
    next
      case (Some predictor)
      show ?thesis
      proof (cases "predictor [ti]")
        case (Inl e)
        with True upd Some show ?thesis
          by (simp add: enhance_table_structure_def enhance_try_def)
      next
        case (Inr predictions)
        show ?thesis
        proof (cases predictions)
          case Nil
          with True upd Some Inr show ?thesis
            by (simp add: enhance_table_structure_def enhance_try_def)
        next
          case (Cons t ts)
          with True upd Some Inr
          have "snd (enhance_table_structure bbox_utils self ti pd cs tb w h) =
              snd (update_cells upd (surya_cell_dict (cells t)) tb pd w h cs)"
            by (simp add: enhance_table_structure_def enhance_try_def
                split: prod.splits sum.splits)
          with True upd Some Inr Cons show ?thesis by blast
        qed
      qed
    qed
  qed
qed

lemma enhance_loop:
  assumes "models_loaded self" "bbox_utils = Inr upd" "table_rec_predictor self = Some predictor"
    "predictor [ti] = Inr (t # ts)"
  shows "snd (enhance_table_structure bbox_utils self ti pd cs tb w h) =
     snd (update_cells upd (surya_cell_dict (cells t)) tb pd w h cs)"
  using assms
  by (simp add: enhance_table_structure_def enhance_try_def split: prod.splits sum.splits)

lemma enhance_before_loop:
  assumes "(\<exists>e. bbox_utils = Inl e) \<or>
    (\<exists>predictor e. table_rec_predictor self = Some predictor \<and> predictor [ti] = Inl e)"
  shows "snd (enhance_table_structure bbox_utils self ti pd cs tb w h) = cs"
  using assms
  by (auto simp: enhance_table_structure_def enhance_try_def split: sum.splits)

subsection \<open>Errors during the enhancement\<close>

text \<open>
  Claim C6, as stated, fails: the loop changes the cells one by one and nothing restores
  them. With a converter that succeeds on cell (0, 0) and raises on cell (0, 1), the
  \<open>try\<close> body ends in that exception, no exception leaves the method, and the first cell
  keeps the box it was given: (0, 0, 10, 10) where it was (1, 1, 2, 2).
\<close>

theorem conversion_error_keeps_earlier_updates:
  "fst (enhance_try (Inr failing_converter) example_enhancer example_image (100, 100)
          example_cells (0, 0, 100, 100) 612 792) = Inl (ValueError (str ''bad box'')) \<and>
   enhance_table_structure (Inr failing_converter) example_enhancer example_image (100, 100)
     example_cells (0, 0, 100, 100) 612 792 =
     (Inr (),
      [\<lparr>start_row_offset_idx = 0, start_col_offset_idx = 0, text' = str ''a'', bbox = (0, 0, 10, 10)\<rparr>,
       \<lparr>start_row_offset_idx = 0, start_col_offset_idx = 1, text' = str ''b'', bbox = (3, 3, 4, 4)\<rparr>,
       \<lparr>start_row_offset_idx = 1, start_col_offset_idx = 0, text' = str ''c'', bbox = (5, 5, 6, 6)\<rparr>]) \<and>
   bbox (example_cells ! 0) = (1, 1, 2, 2)"
  by (simp add: enhance_table_structure_def enhance_try_def example_enhancer_def
      example_table_rec_def example_cells_def failing_converter_def surya_cell_dict_def)

text \<open>
  Claim C6, amended. No error surfaces from \<open>enhance_table_structure\<close>. An error before
  the loop (the import of the converter, the call of the table-structure backend) leaves
  every cell as it was. An error in the conversion of a cell ends the loop there: the
  cell is one that has a match, the cells after it are as they were, and the cells
  before it are as their own conversion left them, which is not undone.
\<close>

theorem enhance_table_structure_on_error:
  "fst (enhance_table_structure bbox_utils self ti pd cs tb w h) = Inr () \<and>
   ((\<exists>e. bbox_utils = Inl e) \<or>
    (\<exists>predictor e. table_rec_predictor self = Some predictor \<and> predictor [ti] = Inl e) \<longrightarrow>
      snd (enhance_table_structure bbox_utils self ti pd cs tb w h) = cs) \<and>
   (\<forall>upd predictor t ts e cs'.
      models_loaded self \<and> bbox_utils = Inr upd \<and>
      table_rec_predictor self = Some predictor \<and> predictor [ti] = Inr (t # ts) \<and>
      update_cells upd (surya_cell_dict (cells t)) tb pd w h cs = (Inl e, cs') \<longrightarrow>
        snd (enhance_table_structure bbox_utils self ti pd cs tb w h) = cs' \<and>
        length cs' = length cs \<and>
        (\<exists>k<length cs. \<exists>sc.
           surya_cell_dict (cells t)
             (start_row_offset_idx (cs ! k), start_col_offset_idx (cs ! k)) = Some sc \<and>
           fst (upd (cs ! k) sc tb pd w h) = Inl e \<and>
           drop (Suc k) cs' = drop (Suc k) cs \<and>
           (\<forall>i<k. cs' ! i =
              (case surya_cell_dict (cells t)
                      (start_row_offset_idx (cs ! i), start_col_offset_idx (cs ! i)) of
                 None \<Rightarrow> cs ! i
               | Some s \<Rightarrow> snd (upd (cs ! i) s tb pd w h)))))"
proof (intro conjI allI impI)
  show "fst (enhance_table_structure bbox_utils self ti pd cs tb w h) = Inr ()"
    by (rule enhance_never_raises)
next
  assume "(\<exists>e. bbox_utils = Inl e) \<or>
    (\<exists>predictor e. table_rec_predictor self = Some predictor \<and> predictor [ti] = Inl e)"
  then show "snd (enhance_table_structure bbox_utils self ti pd cs tb w h) = cs"
    by (rule enhance_before_loop)
next
  fix upd predictor t ts e cs'
  assume a: "models_loaded self \<and> bbox_utils = Inr upd \<and>
      table_rec_predictor self = Some predictor \<and> predictor [ti] = Inr (t # ts) \<and>
      update_cells upd (surya_cell_dict (cells t)) tb pd w h cs = (Inl e, cs')"
  then have loop: "update_cells upd (surya_cell_dict (cells t)) tb pd w h cs = (Inl e, cs')"
    by simp
  from a show "snd (enhance_table_structure bbox_utils self ti pd cs tb w h) = cs'"
    by (simp add: enhance_table_structure_def enhance_try_def)
  from loop show "length cs' = length cs"
    by (rule update_cells_length)
  from loop show "\<exists>k<length cs. \<exists>sc.
           surya_cell_dict (cells t)
             (start_row_offset_idx (cs ! k), start_col_offset_idx (cs ! k)) = Some sc \<and>
           fst (upd (cs ! k) sc tb pd w h) = Inl e \<and>
           drop (Suc k) cs' = drop (Suc k) cs \<and>
           (\<forall>i<k. cs' ! i =
              (case surya_cell_dict (cells t)
                      (start_row_offset_idx (cs ! i), start_col_offset_idx (cs ! i)) of
                 None \<Rightarrow> cs ! i
               | Some s \<Rightarrow> snd (upd (cs ! i) s tb pd w h)))"
    by (rule update_cells_failure)
qed

text \<open>With a table predictor that raises, the call returns and the cells are as before.\<close>

theorem enhance_table_structure_on_error_witness:
  "enhance_table_structure (Inr example_converter) failing_enhancer example_image (100, 100)
     example_cells (0, 0, 100, 100) 612 792 = (Inr (), example_cells)"
proof -
  have "\<exists>predictor e. table_rec_predictor failing_enhancer = Some predictor \<and>
      predictor [example_image] = Inl e"
    by (simp add: failing_enhancer_def)
  with enhance_table_structure_on_error
         [where bbox_utils = "Inr example_converter" and self = failing_enhancer
            and ti = example_image and pd = "(100, 100)" and cs = example_cells
            and tb = "(0, 0, 100, 100)" and w = 612 and h = 792]
  have "fst (enhance_table_structure (Inr example_converter) failing_enhancer example_image
               (100, 100) example_cells (0, 0, 100, 100) 612 792) = Inr ()"
    and "snd (enhance_table_structure (Inr example_converter) failing_enhancer example_image
               (100, 100) example_cells (0, 0, 100, 100) 612 792) = example_cells"
    by blast+
  then show ?thesis by (simp add: prod_eq_iff)
qed

subsection \<open>Cells without a match\<close>

text \<open>
  Claim C7. After \<open>enhance_table_structure\<close>, which never raises, the table has the same
  number of cells, and a cell whose \<open>(start_row_offset_idx, start_col_offset_idx)\<close> is the
  \<open>(row_id, col_id)\<close> of no cell of the model output is equal to what it was, for every
  model output and every converter, also when the loop ends in an exception. The
  enhancer itself assigns to no cell: all changes are those of the converter, so with a
  converter that rewrites the box only (its contract), every cell keeps its row, its
  column and its text.
\<close>

theorem unmatched_cells_unchanged:
  assumes "enhance_table_structure bbox_utils self ti pd cs tb w h = (r, cs')"
  shows "r = Inr () \<and> length cs' = length cs \<and>
    (\<forall>i<length cs.
       (\<forall>predictor t ts. table_rec_predictor self = Some predictor \<and>
            predictor [ti] = Inr (t # ts) \<longrightarrow>
            (\<forall>c \<in> set (cells t).
               (row_id c, col_id c) \<noteq>
               (start_row_offset_idx (cs ! i), start_col_offset_idx (cs ! i)))) \<longrightarrow>
       cs' ! i = cs ! i) \<and>
    ((\<forall>upd c s. bbox_utils = Inr upd \<longrightarrow> (\<exists>b. snd (upd c s tb pd w h) = c\<lparr>bbox := b\<rparr>)) \<longrightarrow>
     (\<forall>i<length cs.
        start_row_offset_idx (cs' ! i) = start_row_offset_idx (cs ! i) \<and>
        start_col_offset_idx (cs' ! i) = start_col_offset_idx (cs ! i) \<and>
        TableCell.text' (cs' ! i) = TableCell.text' (cs ! i)))"
proof -
  from assms enhance_never_raises[of bbox_utils self ti pd cs tb w h]
  have r: "r = Inr ()" by simp
  from assms have cs': "cs' = snd (enhance_table_structure bbox_utils self ti pd cs tb w h)"
    by simp
  from enhance_cases[of bbox_utils self ti pd cs tb w h]
  consider (same) "cs' = cs"
    | (loop) upd predictor t ts where "models_loaded self" "bbox_utils = Inr upd"
        "table_rec_predictor self = Some predictor" "predictor [ti] = Inr (t # ts)"
        "cs' = snd (update_cells upd (surya_cell_dict (cells t)) tb pd w h cs)"
    unfolding cs' by blast
  then show ?thesis
  proof cases
    case same
    with r show ?thesis by simp
  next
    case loop
    obtain r' where run: "update_cells upd (surya_cell_dict (cells t)) tb pd w h cs = (r', cs')"
      using loop(5) by (cases "update_cells upd (surya_cell_dict (cells t)) tb pd w h cs") simp
    have len: "length cs' = length cs"
      using run by (rule update_cells_length)
    have frame: "cs' ! i = cs ! i"
      if "i < length cs"
        and "\<forall>predictor t ts. table_rec_predictor self = Some predictor \<and>
            predictor [ti] = Inr (t # ts) \<longrightarrow>
            (\<forall>c \<in> set (cells t).
               (row_id c, col_id c) \<noteq>
               (start_row_offset_idx (cs ! i), start_col_offset_idx (cs ! i)))" for i
    proof -
      from that(2) loop(3,4)
      have "\<forall>c \<in> set (cells t).
               (row_id c, col_id c) \<noteq>
               (start_row_offset_idx (cs ! i), start_col_offset_idx (cs ! i))"
        by blast
      then have "surya_cell_dict (cells t)
          (start_row_offset_idx (cs ! i), start_col_offset_idx (cs ! i)) = None"
        by (simp add: surya_cell_dict_None)
      with run that(1) show ?thesis by (rule update_cells_unmatched)
    qed
    have only_bbox: "start_row_offset_idx (cs' ! i) = start_row_offset_idx (cs ! i) \<and>
        start_col_offset_idx (cs' ! i) = start_col_offset_idx (cs ! i) \<and>
        TableCell.text' (cs' ! i) = TableCell.text' (cs ! i)"
      if "i < length cs"
        and "\<forall>upd c s. bbox_utils = Inr upd \<longrightarrow> (\<exists>b. snd (upd c s tb pd w h) = c\<lparr>bbox := b\<rparr>)"
      for i
    proof -
      from that(2) loop(2) have "\<And>c s. \<exists>b. snd (upd c s tb pd w h) = c\<lparr>bbox := b\<rparr>"
        by blast
      from update_cells_bbox_only[of upd tb pd w h, OF this run that(1)]
      obtain b where "cs' ! i = (cs ! i)\<lparr>bbox := b\<rparr>" ..
      then show ?thesis by simp
    qed
    from r len frame only_bbox show ?thesis by blast
  qed
qed

text \<open>
  With the model cells (0, 0) and (0, 1), the third of the example cells, at (1, 0), has
  no match and is as before; the first keeps its text.
\<close>

theorem unmatched_cells_unchanged_witness:
  "\<exists>cs'. enhance_table_structure (Inr example_converter) example_enhancer example_image
       (100, 100) example_cells (0, 0, 100, 100) 612 792 = (Inr (), cs') \<and>
     length cs' = 3 \<and> cs' ! 2 = example_cells ! 2 \<and>
     TableCell.text' (cs' ! 0) = str ''a'' \<and> bbox (cs' ! 0) = (0, 0, 10, 10)"
proof -
  let ?cs' = "[\<lparr>start_row_offset_idx = 0, start_col_offset_idx = 0, text' = str ''a'', bbox = (0, 0, 10, 10)\<rparr>,
       \<lparr>start_row_offset_idx = 0, start_col_offset_idx = 1, text' = str ''b'', bbox = (10, 0, 20, 10)\<rparr>,
       \<lparr>start_row_offset_idx = 1, start_col_offset_idx = 0, text' = str ''c'', bbox = (5, 5, 6, 6)\<rparr>]"
  have run: "enhance_table_structure (Inr example_converter) example_enhancer example_image
       (100, 100) example_cells (0, 0, 100, 100) 612 792 = (Inr (), ?cs')"
    by (simp add: enhance_table_structure_def enhance_try_def example_enhancer_def
        example_table_rec_def example_cells_def example_converter_def surya_cell_dict_def)
  have no_match: "\<forall>predictor t ts. table_rec_predictor example_enhancer = Some predictor \<and>
            predictor [example_image] = Inr (t # ts) \<longrightarrow>
            (\<forall>c \<in> set (cells t).
               (row_id c, col_id c) \<noteq>
               (start_row_offset_idx (example_cells ! 2), start_col_offset_idx (example_cells ! 2)))"
    by (auto simp: example_enhancer_def example_table_rec_def example_cells_def)
  have contract: "\<forall>upd c s. Inr example_converter = Inr upd \<longrightarrow>
      (\<exists>b. snd (upd c s (0, 0, 100, 100) (100, 100) 612 792) = c\<lparr>bbox := b\<rparr>)"
  proof (intro allI impI)
    fix upd :: converter and c s
    assume "Inr example_converter = Inr upd"
    then have "upd = example_converter" by simp
    then show "\<exists>b. snd (upd c s (0, 0, 100, 100) (100, 100) 612 792) = c\<lparr>bbox := b\<rparr>"
      by (intro exI[of _ "surya_bbox s"]) (simp add: example_converter_def)
  qed
  have three: "length example_cells = 3" and two: "(2::nat) < 3" and zero: "(0::nat) < 3"
    by (simp_all add: example_cells_def)
  from unmatched_cells_unchanged[OF run] no_match contract three two zero
  have "?cs' ! 2 = example_cells ! 2"
    and "TableCell.text' (?cs' ! 0) = TableCell.text' (example_cells ! 0)"
    by metis+
  with run show ?thesis by (simp add: example_cells_def)
qed

end
